theory Spec2Isabelle
  imports Main "HOL-Library.Option_ord" "HOL-Library.Product_Lexorder" "HOL-Library.Multiset"
begin

section \<open>Request values and responses\<close>

text \<open>
  A field of a JSON request body, after the handler's destructuring
  \<^verbatim>\<open>const { a, b } = req.body\<close>: the property is absent (\<open>Undefined\<close>), is
  \<^verbatim>\<open>null\<close>, or carries a value. The body is taken to be well typed for the
  schema: a text column receives a string, an integer column an integer, a flag
  a boolean (what the admin forms send).
\<close>

datatype 'a field = Undefined | Null | Val 'a

text \<open>JavaScript truthiness; \<open>z\<close> is the falsy value of the type (\<open>''''\<close>, \<open>0\<close>, \<open>False\<close>).\<close>

fun truthy :: "'a \<Rightarrow> 'a field \<Rightarrow> bool" where
  "truthy z (Val v) = (v \<noteq> z)"
| "truthy z Null = False"
| "truthy z Undefined = False"

text \<open>\<^verbatim>\<open>x || d\<close> where \<open>d\<close> is not null.\<close>

fun js_or :: "'a \<Rightarrow> 'a field \<Rightarrow> 'a \<Rightarrow> 'a" where
  "js_or z (Val v) d = (if v = z then d else v)"
| "js_or z Null d = d"
| "js_or z Undefined d = d"

text \<open>\<^verbatim>\<open>x || d\<close> where \<open>d\<close> may be null (a nullable column, or the literal \<^verbatim>\<open>null\<close>).\<close>

fun js_or_null :: "'a \<Rightarrow> 'a field \<Rightarrow> 'a option \<Rightarrow> 'a option" where
  "js_or_null z (Val v) d = (if v = z then d else Some v)"
| "js_or_null z Null d = d"
| "js_or_null z Undefined d = d"

text \<open>\<^verbatim>\<open>x !== undefined ? x : d\<close>.\<close>

fun if_defined :: "'a field \<Rightarrow> 'a option \<Rightarrow> 'a option" where
  "if_defined (Val v) d = Some v"
| "if_defined Null d = None"
| "if_defined Undefined d = d"

text \<open>\<^verbatim>\<open>x ? 1 : 0\<close> and \<^verbatim>\<open>x !== undefined ? (x ? 1 : 0) : d\<close> on a flag.\<close>

fun flag :: "bool field \<Rightarrow> int" where
  "flag (Val b) = (if b then 1 else 0)"
| "flag Null = 0"
| "flag Undefined = 0"

fun flag_if_defined :: "bool field \<Rightarrow> int option \<Rightarrow> int option" where
  "flag_if_defined Undefined d = d"
| "flag_if_defined x d = Some (flag x)"

text \<open>
  A JSON scalar, where the handler does not fix the type of what it reads (the password of
  a login, a value of the settings object), and its truthiness.
\<close>

datatype js_value = VString string | VNumber int | VBoolean bool | VNull

fun js_truthy :: "js_value \<Rightarrow> bool" where
  "js_truthy (VString s) = (s \<noteq> [])"
| "js_truthy (VNumber n) = (n \<noteq> 0)"
| "js_truthy (VBoolean b) = b"
| "js_truthy VNull = False"

text \<open>
  What a handler sends: \<^verbatim>\<open>res.status(s).json(payload)\<close>, or
  \<^verbatim>\<open>res.status(s).json({ error: message })\<close>.
\<close>

datatype 'a response = Json nat 'a | Error nat string

section \<open>Schema\<close>

text \<open>
  The tables of \<^verbatim>\<open>initDatabase\<close> (better-sqlite3 variant). \<^verbatim>\<open>INTEGER PRIMARY KEY
  AUTOINCREMENT\<close> is a natural number, \<^verbatim>\<open>TEXT NOT NULL\<close> a string, a nullable column
  an option (\<open>None\<close> is SQL NULL), \<^verbatim>\<open>DATETIME\<close> an abstract instant (a natural
  number), \<^verbatim>\<open>REAL\<close> prices are integers. Column names that several tables share are
  written with the record's name in front, as in \<open>trainer.name\<close>.
\<close>

record sqlrow =
  id' :: nat

record user = sqlrow +
  email :: string
  password_hash :: string
  name :: string
  role :: "string option"
  created_at :: nat
  last_login :: "nat option"

record page = sqlrow +
  title :: string
  slug :: string
  content :: "string option"
  meta_title :: "string option"
  meta_description :: "string option"
  meta_keywords :: "string option"
  is_published :: "int option"
  created_at :: nat
  updated_at :: nat

record blog_post = sqlrow +
  title :: string
  slug :: string
  excerpt :: "string option"
  content :: "string option"
  featured_image :: "string option"
  category :: "string option"
  tags :: "string option"
  status :: "string option"
  publish_date :: "nat option"
  author_id :: "nat option"
  created_at :: nat
  updated_at :: nat

record trainer = sqlrow +
  name :: string
  specialty :: "string option"
  bio :: "string option"
  photo :: "string option"
  email :: "string option"
  phone :: "string option"
  social_facebook :: "string option"
  social_instagram :: "string option"
  social_twitter :: "string option"
  certifications :: "string option"
  is_active :: "int option"
  sort_order :: "int option"
  created_at :: nat

record class_row = sqlrow +
  name :: string
  description :: "string option"
  short_description :: "string option"
  image' :: "string option"
  trainer_id :: "nat option"
  schedule :: "string option"
  duration :: "int option"
  capacity :: "int option"
  price :: "int option"
  difficulty :: "string option"
  is_active :: "int option"
  sort_order :: "int option"
  created_at :: nat

record membership_plan = sqlrow +
  name :: string
  price :: int
  billing_period :: "string option"
  description :: "string option"
  features :: "string option"
  is_featured :: "int option"
  is_active :: "int option"
  sort_order :: "int option"
  created_at :: nat

record membership_inquiry = sqlrow +
  name :: string
  email :: string
  phone :: "string option"
  plan_id :: "nat option"
  message :: "string option"
  status :: "string option"
  created_at :: nat

record testimonial = sqlrow +
  client_name :: string
  client_photo :: "string option"
  client_title :: "string option"
  content :: string
  rating :: "int option"
  is_approved :: "int option"
  sort_order :: "int option"
  created_at :: nat

record gallery_album = sqlrow +
  name :: string
  description :: "string option"
  cover_image :: "string option"
  is_active :: "int option"
  sort_order :: "int option"
  created_at :: nat

record gallery_image = sqlrow +
  album_id :: "nat option"
  file_path :: string
  thumbnail_path :: "string option"
  caption :: "string option"
  sort_order :: "int option"
  created_at :: nat

record media_row = sqlrow +
  filename :: string
  original_name :: string
  file_path :: string
  file_type :: "string option"
  file_size :: "int option"
  width :: "int option"
  height :: "int option"
  alt_text :: "string option"
  created_at :: nat

record setting = sqlrow +
  key :: string
  value' :: "string option"
  type' :: "string option"

record activity_log = sqlrow +
  user_id :: "nat option"
  action :: string
  entity_type :: "string option"
  entity_id :: "nat option"
  details :: "string option"
  ip_address :: "string option"
  created_at :: nat

text \<open>
  A table is its rows in rowid order and the AUTOINCREMENT counter
  (\<^verbatim>\<open>sqlite_sequence\<close>): the largest rowid the table has ever held.
\<close>

record 'r table =
  rows :: "'r list"
  seq :: nat

record db =
  users :: "user table"
  pages :: "page table"
  blog_posts :: "blog_post table"
  trainers :: "trainer table"
  classes :: "class_row table"
  membership_plans :: "membership_plan table"
  membership_inquiries :: "membership_inquiry table"
  testimonials :: "testimonial table"
  gallery_albums :: "gallery_album table"
  gallery_images :: "gallery_image table"
  media :: "media_row table"
  settings :: "setting table"
  activity_logs :: "activity_log table"

section \<open>Statements\<close>

text \<open>\<^verbatim>\<open>SELECT * FROM t WHERE id = ?\<close> with \<^verbatim>\<open>.get\<close>: the first matching row.\<close>

definition select_by_id :: "nat \<Rightarrow> ('a sqlrow_scheme) table \<Rightarrow> 'a sqlrow_scheme option" where
  "select_by_id i t = find (\<lambda>r. id' r = i) (rows t)"

text \<open>The rowid an AUTOINCREMENT table gives its next row.\<close>

definition next_rowid :: "('a sqlrow_scheme) table \<Rightarrow> nat" where
  "next_rowid t = Suc (fold max (map id' (rows t)) (seq t))"

text \<open>\<^verbatim>\<open>INSERT INTO t ...\<close>: \<open>mk\<close> builds the row from its rowid (\<^verbatim>\<open>lastInsertRowid\<close>).\<close>

definition insert_row :: "(nat \<Rightarrow> 'a sqlrow_scheme) \<Rightarrow> ('a sqlrow_scheme) table
    \<Rightarrow> ('a sqlrow_scheme) table" where
  "insert_row mk t = \<lparr>rows = rows t @ [mk (next_rowid t)], seq = next_rowid t\<rparr>"

text \<open>\<^verbatim>\<open>UPDATE t SET ... WHERE id = ?\<close>.\<close>

definition update_by_id :: "nat \<Rightarrow> ('a sqlrow_scheme \<Rightarrow> 'a sqlrow_scheme) \<Rightarrow> ('a sqlrow_scheme) table
    \<Rightarrow> ('a sqlrow_scheme) table" where
  "update_by_id i f t = t\<lparr>rows := map (\<lambda>r. if id' r = i then f r else r) (rows t)\<rparr>"

text \<open>\<^verbatim>\<open>DELETE FROM t WHERE id = ?\<close>.\<close>

definition delete_by_id :: "nat \<Rightarrow> ('a sqlrow_scheme) table \<Rightarrow> ('a sqlrow_scheme) table" where
  "delete_by_id i t = t\<lparr>rows := filter (\<lambda>r. id' r \<noteq> i) (rows t)\<rparr>"

text \<open>A foreign key is satisfied by NULL or by the rowid of a row of the parent table.\<close>

fun fk_ok :: "nat option \<Rightarrow> ('a sqlrow_scheme) table \<Rightarrow> bool" where
  "fk_ok None t = True"
| "fk_ok (Some i) t = (select_by_id i t \<noteq> None)"

section \<open>Authentication middleware and the activity journal\<close>

text \<open>
  \<^verbatim>\<open>jwt.verify(token, JWT_SECRET)\<close> is a collaborator: it returns the decoded
  \<^verbatim>\<open>userId\<close>, or throws \<^verbatim>\<open>TokenExpiredError\<close> or another error.
\<close>

datatype jwt_result = Decoded nat | TokenExpired | TokenInvalid

record request =
  authorization :: "string option"
  ip :: "string option"

text \<open>\<^verbatim>\<open>s.split(c)\<close> for a one-character separator.\<close>

fun split :: "char \<Rightarrow> string \<Rightarrow> string list" where
  "split c [] = [[]]"
| "split c (x # xs) =
     (if x = c then [] # split c xs
      else (case split c xs of [] \<Rightarrow> [[x]] | w # ws \<Rightarrow> (x # w) # ws))"

text \<open>\<^verbatim>\<open>authHeader && authHeader.split(' ')[1]\<close>, \<open>None\<close> when the result is falsy.\<close>

definition bearer_token :: "string option \<Rightarrow> string option" where
  "bearer_token authHeader =
     (case authHeader of
        None \<Rightarrow> None
      | Some h \<Rightarrow>
          (case split (CHR '' '') h of
             _ # tok # _ \<Rightarrow> (if tok = [] then None else Some tok)
           | _ \<Rightarrow> None))"

definition authenticateToken :: "(string \<Rightarrow> jwt_result) \<Rightarrow> request \<Rightarrow> db \<Rightarrow> (nat \<times> string) + user" where
  "authenticateToken verify req d =
     (case bearer_token (authorization req) of
        None \<Rightarrow> Inl (401, ''Authentication required'')
      | Some tok \<Rightarrow>
          (case verify tok of
             Decoded uid \<Rightarrow>
               (case select_by_id uid (users d) of
                  None \<Rightarrow> Inl (401, ''User not found'')
                | Some u \<Rightarrow> Inr u)
           | TokenExpired \<Rightarrow> Inl (401, ''Token expired'')
           | TokenInvalid \<Rightarrow> Inl (403, ''Invalid token'')))"

text \<open>A route registered as \<^verbatim>\<open>router.put(path, authenticateToken, handler)\<close>.\<close>

definition with_auth :: "(string \<Rightarrow> jwt_result) \<Rightarrow> request \<Rightarrow> db \<Rightarrow> (user \<Rightarrow> 'a response \<times> db)
    \<Rightarrow> 'a response \<times> db" where
  "with_auth verify req d handler =
     (case authenticateToken verify req d of
        Inl (s, m) \<Rightarrow> (Error s m, d)
      | Inr u \<Rightarrow> handler u)"

text \<open>
  The list routes' \<^verbatim>\<open>authHeader && authHeader.startsWith('Bearer ')\<close>: the token is
  not verified.
\<close>

definition isAdmin :: "request \<Rightarrow> bool" where
  "isAdmin req =
     (case authorization req of None \<Rightarrow> False | Some h \<Rightarrow> take 7 h = ''Bearer '')"

text \<open>
  \<^verbatim>\<open>logActivity\<close>: one INSERT into \<^verbatim>\<open>activity_logs\<close>; an error of the statement
  (the foreign key on \<^verbatim>\<open>user_id\<close>) is caught and only printed.
\<close>

definition logActivity :: "nat \<Rightarrow> string \<Rightarrow> string option \<Rightarrow> nat option \<Rightarrow> string option
    \<Rightarrow> string option \<Rightarrow> nat \<Rightarrow> db \<Rightarrow> db" where
  "logActivity userId act entityType entityId dets ipAddress now d =
     (if fk_ok (Some userId) (users d)
      then d\<lparr>activity_logs := insert_row
             (\<lambda>i. \<lparr>id' = i, user_id = Some userId, action = act, entity_type = entityType,
                    entity_id = entityId, details = dets, ip_address = ipAddress,
                    activity_log.created_at = now\<rparr>)
             (activity_logs d)\<rparr>
      else d)"

section \<open>Login\<close>

text \<open>\<^verbatim>\<open>email.toLowerCase()\<close> on the ASCII letters.\<close>

definition lower_char :: "char \<Rightarrow> char" where
  "lower_char c =
     (if 65 \<le> (of_char c :: nat) \<and> (of_char c :: nat) \<le> 90
      then char_of ((of_char c :: nat) + 32) else c)"

definition toLowerCase :: "string \<Rightarrow> string" where
  "toLowerCase s = map lower_char s"

record login_body =
  email :: "string field"
  password :: "js_value field"

record user_summary = sqlrow +
  email :: string
  name :: string
  role :: "string option"

text \<open>
  \<^verbatim>\<open>POST /api/auth/login\<close> of the router. The email is taken to be a string; the
  password is any JSON scalar. \<open>compare\<close> is \<^verbatim>\<open>bcrypt.compare\<close> on a string and the
  stored digest, and \<open>sign\<close> is \<^verbatim>\<open>jwt.sign\<close> (user id, email, role), both
  collaborators. Given a password that is not a string, \<^verbatim>\<open>bcrypt.compare\<close> rejects
  (\<^verbatim>\<open>data and hash must be strings\<close>): the \<^verbatim>\<open>await\<close> throws and the handler's
  \<^verbatim>\<open>catch\<close> answers 500 \<^verbatim>\<open>Login failed\<close>. The comparison runs after the lookup
  has found the user and before any write.
\<close>

definition login :: "(string \<Rightarrow> string \<Rightarrow> bool) \<Rightarrow> (nat \<Rightarrow> string \<Rightarrow> string option \<Rightarrow> string)
    \<Rightarrow> request \<Rightarrow> login_body \<Rightarrow> nat \<Rightarrow> db \<Rightarrow> (string \<times> user_summary) response \<times> db" where
  "login compare sign req b now d =
     (case (login_body.email b, login_body.password b) of
        (Val e, Val p) \<Rightarrow>
          (if e = [] \<or> \<not> js_truthy p then (Error 400 ''Email and password are required'', d)
           else
             (case find (\<lambda>u. user.email u = toLowerCase e) (rows (users d)) of
                None \<Rightarrow> (Error 401 ''Invalid credentials'', d)
              | Some u \<Rightarrow>
                  (case p of
                     VString s \<Rightarrow>
                       (if compare s (password_hash u)
                        then
                          (let d1 = d\<lparr>users := update_by_id (id' u)
                                       (\<lambda>r. r\<lparr>last_login := Some now\<rparr>) (users d)\<rparr>;
                               tok = sign (id' u) (user.email u) (user.role u);
                               d2 = logActivity (id' u) ''login'' (Some ''user'')
                                      (Some (id' u)) None (ip req) now d1
                           in (Json 200 (tok, \<lparr>id' = id' u, user_summary.email = user.email u,
                                                user_summary.name = user.name u,
                                                user_summary.role = user.role u\<rparr>), d2))
                        else (Error 401 ''Invalid credentials'', d))
                   | _ \<Rightarrow> (Error 500 ''Login failed'', d))))
      | _ \<Rightarrow> (Error 400 ''Email and password are required'', d))"

text \<open>
  The serverless login handler (\<^verbatim>\<open>api/auth/login.js\<close>, method POST), on the store
  as \<^verbatim>\<open>await initDatabase()\<close> leaves it: no lower-casing, no journal entry, and the
  same \<^verbatim>\<open>catch\<close> around the lookup, the comparison and the update.
\<close>

definition login_handler :: "(string \<Rightarrow> string \<Rightarrow> bool) \<Rightarrow> (nat \<Rightarrow> string \<Rightarrow> string option \<Rightarrow> string)
    \<Rightarrow> login_body \<Rightarrow> nat \<Rightarrow> db \<Rightarrow> (string \<times> user_summary) response \<times> db" where
  "login_handler compare generateToken b now d =
     (case (login_body.email b, login_body.password b) of
        (Val e, Val p) \<Rightarrow>
          (if e = [] \<or> \<not> js_truthy p then (Error 400 ''Email and password required'', d)
           else
             (case find (\<lambda>u. user.email u = e) (rows (users d)) of
                None \<Rightarrow> (Error 401 ''Invalid credentials'', d)
              | Some u \<Rightarrow>
                  (case p of
                     VString s \<Rightarrow>
                       (if compare s (password_hash u)
                        then
                          (let d1 = d\<lparr>users := update_by_id (id' u)
                                       (\<lambda>r. r\<lparr>last_login := Some now\<rparr>) (users d)\<rparr>;
                               tok = generateToken (id' u) (user.email u) (user.role u)
                           in (Json 200 (tok, \<lparr>id' = id' u, user_summary.email = user.email u,
                                                user_summary.name = user.name u,
                                                user_summary.role = user.role u\<rparr>), d1))
                        else (Error 401 ''Invalid credentials'', d))
                   | _ \<Rightarrow> (Error 500 ''Login failed'', d))))
      | _ \<Rightarrow> (Error 400 ''Email and password required'', d))"

section \<open>Testimonials (\<^verbatim>\<open>server/routes/testimonials.js\<close>)\<close>

text \<open>
  In every route \<^verbatim>\<open>req.params.id\<close> is taken as the rowid it denotes. A handler's
  \<^verbatim>\<open>catch\<close> branch answers 500 and keeps what the statements before the throw wrote.
\<close>

record testimonial_body =
  client_name :: "string field"
  client_photo :: "string field"
  client_title :: "string field"
  content :: "string field"
  rating :: "int field"
  is_approved :: "bool field"
  sort_order :: "int field"

definition get_testimonials :: "request \<Rightarrow> db \<Rightarrow> testimonial list response" where
  "get_testimonials req d =
     (if isAdmin req
      then Json 200 (sort_key (\<lambda>r. (testimonial.sort_order r, - int (testimonial.created_at r)))
             (rows (testimonials d)))
      else Json 200 (sort_key testimonial.sort_order
             (filter (\<lambda>r. testimonial.is_approved r = Some 1) (rows (testimonials d)))))"

definition get_testimonial :: "request \<Rightarrow> nat \<Rightarrow> db \<Rightarrow> testimonial response" where
  "get_testimonial req i d =
     (case select_by_id i (testimonials d) of
        None \<Rightarrow> Error 404 ''Testimonial not found''
      | Some t \<Rightarrow> Json 200 t)"

definition insert_testimonial :: "string \<Rightarrow> string \<Rightarrow> testimonial_body \<Rightarrow> nat \<Rightarrow> nat \<Rightarrow> testimonial" where
  "insert_testimonial cn c b now i =
     \<lparr>id' = i, testimonial.client_name = cn,
      testimonial.client_photo = Some (js_or [] (testimonial_body.client_photo b) []),
      testimonial.client_title = Some (js_or [] (testimonial_body.client_title b) []),
      testimonial.content = c,
      testimonial.rating = Some (js_or 0 (testimonial_body.rating b) 5),
      testimonial.is_approved = Some (flag (testimonial_body.is_approved b)),
      testimonial.sort_order = Some (js_or 0 (testimonial_body.sort_order b) 0),
      testimonial.created_at = now\<rparr>"

definition post_testimonial :: "(string \<Rightarrow> jwt_result) \<Rightarrow> request \<Rightarrow> testimonial_body \<Rightarrow> nat \<Rightarrow> db
    \<Rightarrow> testimonial response \<times> db" where
  "post_testimonial verify req b now d = with_auth verify req d (\<lambda>u.
     (case (testimonial_body.client_name b, testimonial_body.content b) of
        (Val cn, Val c) \<Rightarrow>
          (if cn = [] \<or> c = [] then (Error 400 ''Client name and content are required'', d)
           else
             (let tbl = insert_row (insert_testimonial cn c b now) (testimonials d);
                  d1 = d\<lparr>testimonials := tbl\<rparr>
              in (case select_by_id (seq tbl) tbl of
                    None \<Rightarrow> (Error 500 ''Failed to create testimonial'', d1)
                  | Some t \<Rightarrow>
                      (Json 201 t,
                       logActivity (id' u) ''create'' (Some ''testimonial'') (Some (id' t))
                         (Some (''Created testimonial from: '' @ cn)) (ip req) now d1))))
      | _ \<Rightarrow> (Error 400 ''Client name and content are required'', d)))"

text \<open>The SET clause of the UPDATE; \<^verbatim>\<open>content\<close> is \<^verbatim>\<open>NOT NULL\<close> and arrives as \<open>c\<close>.\<close>

definition set_testimonial :: "testimonial \<Rightarrow> string \<Rightarrow> testimonial_body \<Rightarrow> testimonial \<Rightarrow> testimonial" where
  "set_testimonial existing c b r =
     r\<lparr>testimonial.client_name :=
         js_or [] (testimonial_body.client_name b) (testimonial.client_name existing),
       testimonial.client_photo :=
         if_defined (testimonial_body.client_photo b) (testimonial.client_photo existing),
       testimonial.client_title :=
         if_defined (testimonial_body.client_title b) (testimonial.client_title existing),
       testimonial.content := c,
       testimonial.rating := if_defined (testimonial_body.rating b) (testimonial.rating existing),
       testimonial.is_approved :=
         flag_if_defined (testimonial_body.is_approved b) (testimonial.is_approved existing),
       testimonial.sort_order :=
         if_defined (testimonial_body.sort_order b) (testimonial.sort_order existing)\<rparr>"

definition put_testimonial :: "(string \<Rightarrow> jwt_result) \<Rightarrow> request \<Rightarrow> nat \<Rightarrow> testimonial_body \<Rightarrow> nat
    \<Rightarrow> db \<Rightarrow> testimonial response \<times> db" where
  "put_testimonial verify req i b now d = with_auth verify req d (\<lambda>u.
     (case select_by_id i (testimonials d) of
        None \<Rightarrow> (Error 404 ''Testimonial not found'', d)
      | Some existing \<Rightarrow>
          (case if_defined (testimonial_body.content b) (Some (testimonial.content existing)) of
             None \<Rightarrow> (Error 500 ''Failed to update testimonial'', d)
           | Some c \<Rightarrow>
               (let d1 = d\<lparr>testimonials :=
                            update_by_id i (set_testimonial existing c b) (testimonials d)\<rparr>
                in (case select_by_id i (testimonials d1) of
                      None \<Rightarrow> (Error 500 ''Failed to update testimonial'', d1)
                    | Some t \<Rightarrow>
                        (Json 200 t,
                         logActivity (id' u) ''update'' (Some ''testimonial'') (Some (id' t))
                           (Some (''Updated testimonial from: '' @ testimonial.client_name t))
                           (ip req) now d1))))))"

definition delete_testimonial :: "(string \<Rightarrow> jwt_result) \<Rightarrow> request \<Rightarrow> nat \<Rightarrow> nat \<Rightarrow> db
    \<Rightarrow> string response \<times> db" where
  "delete_testimonial verify req i now d = with_auth verify req d (\<lambda>u.
     (case select_by_id i (testimonials d) of
        None \<Rightarrow> (Error 404 ''Testimonial not found'', d)
      | Some t \<Rightarrow>
          (Json 200 ''Testimonial deleted successfully'',
           logActivity (id' u) ''delete'' (Some ''testimonial'') (Some (id' t))
             (Some (''Deleted testimonial from: '' @ testimonial.client_name t)) (ip req) now
             (d\<lparr>testimonials := delete_by_id i (testimonials d)\<rparr>))))"

section \<open>Trainers (\<^verbatim>\<open>server/routes/trainers.js\<close>)\<close>

record trainer_body =
  name :: "string field"
  specialty :: "string field"
  bio :: "string field"
  photo :: "string field"
  email :: "string field"
  phone :: "string field"
  social_facebook :: "string field"
  social_instagram :: "string field"
  social_twitter :: "string field"
  certifications :: "string field"
  is_active :: "bool field"
  sort_order :: "int field"

definition get_trainers :: "request \<Rightarrow> db \<Rightarrow> trainer list response" where
  "get_trainers req d =
     (if isAdmin req
      then Json 200 (sort_key (\<lambda>r. (trainer.sort_order r, - int (trainer.created_at r)))
             (rows (trainers d)))
      else Json 200 (sort_key trainer.sort_order
             (filter (\<lambda>r. trainer.is_active r = Some 1) (rows (trainers d)))))"

definition get_trainer :: "request \<Rightarrow> nat \<Rightarrow> db \<Rightarrow> trainer response" where
  "get_trainer req i d =
     (case select_by_id i (trainers d) of
        None \<Rightarrow> Error 404 ''Trainer not found''
      | Some t \<Rightarrow> Json 200 t)"

definition insert_trainer :: "string \<Rightarrow> trainer_body \<Rightarrow> nat \<Rightarrow> nat \<Rightarrow> trainer" where
  "insert_trainer n b now i =
     \<lparr>id' = i, trainer.name = n,
      trainer.specialty = Some (js_or [] (trainer_body.specialty b) []),
      trainer.bio = Some (js_or [] (trainer_body.bio b) []),
      trainer.photo = Some (js_or [] (trainer_body.photo b) []),
      trainer.email = Some (js_or [] (trainer_body.email b) []),
      trainer.phone = Some (js_or [] (trainer_body.phone b) []),
      trainer.social_facebook = Some (js_or [] (trainer_body.social_facebook b) []),
      trainer.social_instagram = Some (js_or [] (trainer_body.social_instagram b) []),
      trainer.social_twitter = Some (js_or [] (trainer_body.social_twitter b) []),
      trainer.certifications = Some (js_or [] (trainer_body.certifications b) []),
      trainer.is_active = flag_if_defined (trainer_body.is_active b) (Some 1),
      trainer.sort_order = Some (js_or 0 (trainer_body.sort_order b) 0),
      trainer.created_at = now\<rparr>"

definition post_trainer :: "(string \<Rightarrow> jwt_result) \<Rightarrow> request \<Rightarrow> trainer_body \<Rightarrow> nat \<Rightarrow> db
    \<Rightarrow> trainer response \<times> db" where
  "post_trainer verify req b now d = with_auth verify req d (\<lambda>u.
     (case trainer_body.name b of
        Val n \<Rightarrow>
          (if n = [] then (Error 400 ''Name is required'', d)
           else
             (let tbl = insert_row (insert_trainer n b now) (trainers d);
                  d1 = d\<lparr>trainers := tbl\<rparr>
              in (case select_by_id (seq tbl) tbl of
                    None \<Rightarrow> (Error 500 ''Failed to create trainer'', d1)
                  | Some t \<Rightarrow>
                      (Json 201 t,
                       logActivity (id' u) ''create'' (Some ''trainer'') (Some (id' t))
                         (Some (''Created trainer: '' @ n)) (ip req) now d1))))
      | _ \<Rightarrow> (Error 400 ''Name is required'', d)))"

definition set_trainer :: "trainer \<Rightarrow> trainer_body \<Rightarrow> trainer \<Rightarrow> trainer" where
  "set_trainer existing b r =
     r\<lparr>trainer.name := js_or [] (trainer_body.name b) (trainer.name existing),
       trainer.specialty := if_defined (trainer_body.specialty b) (trainer.specialty existing),
       trainer.bio := if_defined (trainer_body.bio b) (trainer.bio existing),
       trainer.photo := if_defined (trainer_body.photo b) (trainer.photo existing),
       trainer.email := if_defined (trainer_body.email b) (trainer.email existing),
       trainer.phone := if_defined (trainer_body.phone b) (trainer.phone existing),
       trainer.social_facebook :=
         if_defined (trainer_body.social_facebook b) (trainer.social_facebook existing),
       trainer.social_instagram :=
         if_defined (trainer_body.social_instagram b) (trainer.social_instagram existing),
       trainer.social_twitter :=
         if_defined (trainer_body.social_twitter b) (trainer.social_twitter existing),
       trainer.certifications :=
         if_defined (trainer_body.certifications b) (trainer.certifications existing),
       trainer.is_active := flag_if_defined (trainer_body.is_active b) (trainer.is_active existing),
       trainer.sort_order := if_defined (trainer_body.sort_order b) (trainer.sort_order existing)\<rparr>"

definition put_trainer :: "(string \<Rightarrow> jwt_result) \<Rightarrow> request \<Rightarrow> nat \<Rightarrow> trainer_body \<Rightarrow> nat \<Rightarrow> db
    \<Rightarrow> trainer response \<times> db" where
  "put_trainer verify req i b now d = with_auth verify req d (\<lambda>u.
     (case select_by_id i (trainers d) of
        None \<Rightarrow> (Error 404 ''Trainer not found'', d)
      | Some existing \<Rightarrow>
          (let d1 = d\<lparr>trainers := update_by_id i (set_trainer existing b) (trainers d)\<rparr>
           in (case select_by_id i (trainers d1) of
                 None \<Rightarrow> (Error 500 ''Failed to update trainer'', d1)
               | Some t \<Rightarrow>
                   (Json 200 t,
                    logActivity (id' u) ''update'' (Some ''trainer'') (Some (id' t))
                      (Some (''Updated trainer: '' @ trainer.name t)) (ip req) now d1)))))"

text \<open>
  \<^verbatim>\<open>classes.trainer_id REFERENCES trainers(id)\<close> with foreign keys on: the DELETE throws
  while a class refers to the trainer.
\<close>

definition delete_trainer :: "(string \<Rightarrow> jwt_result) \<Rightarrow> request \<Rightarrow> nat \<Rightarrow> nat \<Rightarrow> db
    \<Rightarrow> string response \<times> db" where
  "delete_trainer verify req i now d = with_auth verify req d (\<lambda>u.
     (case select_by_id i (trainers d) of
        None \<Rightarrow> (Error 404 ''Trainer not found'', d)
      | Some t \<Rightarrow>
          (if list_ex (\<lambda>c. class_row.trainer_id c = Some i) (rows (classes d))
           then (Error 500 ''Failed to delete trainer'', d)
           else
             (Json 200 ''Trainer deleted successfully'',
              logActivity (id' u) ''delete'' (Some ''trainer'') (Some (id' t))
                (Some (''Deleted trainer: '' @ trainer.name t)) (ip req) now
                (d\<lparr>trainers := delete_by_id i (trainers d)\<rparr>)))))"

section \<open>Classes (\<^verbatim>\<open>server/routes/classes.js\<close>)\<close>

record class_body =
  name :: "string field"
  description :: "string field"
  short_description :: "string field"
  image' :: "string field"
  trainer_id :: "nat field"
  schedule :: "string field"
  duration :: "int field"
  capacity :: "int field"
  price :: "int field"
  difficulty :: "string field"
  is_active :: "bool field"
  sort_order :: "int field"

text \<open>\<^verbatim>\<open>LEFT JOIN trainers t ON c.trainer_id = t.id\<close>.\<close>

definition join_trainer :: "db \<Rightarrow> class_row \<Rightarrow> trainer option" where
  "join_trainer d c =
     (case class_row.trainer_id c of
        None \<Rightarrow> None
      | Some tid \<Rightarrow> select_by_id tid (trainers d))"

text \<open>A class with \<^verbatim>\<open>trainer_name\<close> and \<^verbatim>\<open>trainer_photo\<close>.\<close>

definition get_classes :: "request \<Rightarrow> db \<Rightarrow> (class_row \<times> string option \<times> string option) list response" where
  "get_classes req d =
     Json 200
       (map (\<lambda>c. (c, map_option trainer.name (join_trainer d c),
                   Option.bind (join_trainer d c) trainer.photo))
          (sort_key (\<lambda>r. (class_row.sort_order r, - int (class_row.created_at r)))
             (if isAdmin req then rows (classes d)
              else filter (\<lambda>r. class_row.is_active r = Some 1) (rows (classes d)))))"

definition get_class :: "request \<Rightarrow> nat \<Rightarrow> db
    \<Rightarrow> (class_row \<times> string option \<times> string option \<times> string option) response" where
  "get_class req i d =
     (case select_by_id i (classes d) of
        None \<Rightarrow> Error 404 ''Class not found''
      | Some c \<Rightarrow>
          Json 200 (c, map_option trainer.name (join_trainer d c),
                    Option.bind (join_trainer d c) trainer.photo,
                    Option.bind (join_trainer d c) trainer.specialty))"

definition insert_class :: "string \<Rightarrow> class_body \<Rightarrow> nat \<Rightarrow> nat \<Rightarrow> class_row" where
  "insert_class n b now i =
     \<lparr>id' = i, class_row.name = n,
      class_row.description = Some (js_or [] (class_body.description b) []),
      class_row.short_description = Some (js_or [] (class_body.short_description b) []),
      class_row.image' = Some (js_or [] (class_body.image' b) []),
      class_row.trainer_id = js_or_null 0 (class_body.trainer_id b) None,
      class_row.schedule = Some (js_or [] (class_body.schedule b) []),
      class_row.duration = Some (js_or 0 (class_body.duration b) 60),
      class_row.capacity = Some (js_or 0 (class_body.capacity b) 20),
      class_row.price = Some (js_or 0 (class_body.price b) 0),
      class_row.difficulty = Some (js_or [] (class_body.difficulty b) ''intermediate''),
      class_row.is_active = flag_if_defined (class_body.is_active b) (Some 1),
      class_row.sort_order = Some (js_or 0 (class_body.sort_order b) 0),
      class_row.created_at = now\<rparr>"

definition post_class :: "(string \<Rightarrow> jwt_result) \<Rightarrow> request \<Rightarrow> class_body \<Rightarrow> nat \<Rightarrow> db
    \<Rightarrow> class_row response \<times> db" where
  "post_class verify req b now d = with_auth verify req d (\<lambda>u.
     (case class_body.name b of
        Val n \<Rightarrow>
          (if n = [] then (Error 400 ''Name is required'', d)
           else if \<not> fk_ok (js_or_null 0 (class_body.trainer_id b) None) (trainers d)
           then (Error 500 ''Failed to create class'', d)
           else
             (let tbl = insert_row (insert_class n b now) (classes d);
                  d1 = d\<lparr>classes := tbl\<rparr>
              in (case select_by_id (seq tbl) tbl of
                    None \<Rightarrow> (Error 500 ''Failed to create class'', d1)
                  | Some c \<Rightarrow>
                      (Json 201 c,
                       logActivity (id' u) ''create'' (Some ''class'') (Some (id' c))
                         (Some (''Created class: '' @ n)) (ip req) now d1))))
      | _ \<Rightarrow> (Error 400 ''Name is required'', d)))"

definition set_class :: "class_row \<Rightarrow> class_body \<Rightarrow> class_row \<Rightarrow> class_row" where
  "set_class existing b r =
     r\<lparr>class_row.name := js_or [] (class_body.name b) (class_row.name existing),
       class_row.description :=
         if_defined (class_body.description b) (class_row.description existing),
       class_row.short_description :=
         if_defined (class_body.short_description b) (class_row.short_description existing),
       class_row.image' := if_defined (class_body.image' b) (class_row.image' existing),
       class_row.trainer_id := if_defined (class_body.trainer_id b) (class_row.trainer_id existing),
       class_row.schedule := if_defined (class_body.schedule b) (class_row.schedule existing),
       class_row.duration := if_defined (class_body.duration b) (class_row.duration existing),
       class_row.capacity := if_defined (class_body.capacity b) (class_row.capacity existing),
       class_row.price := if_defined (class_body.price b) (class_row.price existing),
       class_row.difficulty := if_defined (class_body.difficulty b) (class_row.difficulty existing),
       class_row.is_active :=
         flag_if_defined (class_body.is_active b) (class_row.is_active existing),
       class_row.sort_order := if_defined (class_body.sort_order b) (class_row.sort_order existing)\<rparr>"

definition put_class :: "(string \<Rightarrow> jwt_result) \<Rightarrow> request \<Rightarrow> nat \<Rightarrow> class_body \<Rightarrow> nat \<Rightarrow> db
    \<Rightarrow> class_row response \<times> db" where
  "put_class verify req i b now d = with_auth verify req d (\<lambda>u.
     (case select_by_id i (classes d) of
        None \<Rightarrow> (Error 404 ''Class not found'', d)
      | Some existing \<Rightarrow>
          (if \<not> fk_ok (if_defined (class_body.trainer_id b) (class_row.trainer_id existing))
                  (trainers d)
           then (Error 500 ''Failed to update class'', d)
           else
             (let d1 = d\<lparr>classes := update_by_id i (set_class existing b) (classes d)\<rparr>
              in (case select_by_id i (classes d1) of
                    None \<Rightarrow> (Error 500 ''Failed to update class'', d1)
                  | Some c \<Rightarrow>
                      (Json 200 c,
                       logActivity (id' u) ''update'' (Some ''class'') (Some (id' c))
                         (Some (''Updated class: '' @ class_row.name c)) (ip req) now d1))))))"

definition delete_class :: "(string \<Rightarrow> jwt_result) \<Rightarrow> request \<Rightarrow> nat \<Rightarrow> nat \<Rightarrow> db
    \<Rightarrow> string response \<times> db" where
  "delete_class verify req i now d = with_auth verify req d (\<lambda>u.
     (case select_by_id i (classes d) of
        None \<Rightarrow> (Error 404 ''Class not found'', d)
      | Some c \<Rightarrow>
          (Json 200 ''Class deleted successfully'',
           logActivity (id' u) ''delete'' (Some ''class'') (Some (id' c))
             (Some (''Deleted class: '' @ class_row.name c)) (ip req) now
             (d\<lparr>classes := delete_by_id i (classes d)\<rparr>))))"

section \<open>Membership plans (\<^verbatim>\<open>server/routes/membership.js\<close>)\<close>

text \<open>
  \<^verbatim>\<open>features\<close> in a request body: absent, \<^verbatim>\<open>null\<close>, an array of strings, or an
  already serialized string.
\<close>

datatype features_in = FUndefined | FNull | FArray "string list" | FString string

text \<open>
  What \<^verbatim>\<open>JSON.parse\<close> returns for a stored \<^verbatim>\<open>features\<close> text: an array of strings,
  \<^verbatim>\<open>null\<close>, or another JSON value. \<^verbatim>\<open>JSON.stringify\<close> (on an array of strings) and
  \<^verbatim>\<open>JSON.parse\<close> (\<open>None\<close> when it throws) are parameters of the routes.
\<close>

datatype json = JArray "string list" | JNull | JOther

record plan_body =
  name :: "string field"
  price :: "int field"
  billing_period :: "string field"
  description :: "string field"
  features :: features_in
  is_featured :: "bool field"
  is_active :: "bool field"
  sort_order :: "int field"

text \<open>\<^verbatim>\<open>plan.features ? JSON.parse(plan.features) : []\<close>.\<close>

definition parse_features :: "(string \<Rightarrow> json option) \<Rightarrow> string option \<Rightarrow> json option" where
  "parse_features parse f =
     (case f of
        None \<Rightarrow> Some (JArray [])
      | Some s \<Rightarrow> (if s = [] then Some (JArray []) else parse s))"

text \<open>\<^verbatim>\<open>JSON.parse(plan.features)\<close>; \<^verbatim>\<open>JSON.parse(null)\<close> is \<^verbatim>\<open>null\<close>.\<close>

definition parse_stored :: "(string \<Rightarrow> json option) \<Rightarrow> string option \<Rightarrow> json option" where
  "parse_stored parse f = (case f of None \<Rightarrow> Some JNull | Some s \<Rightarrow> parse s)"

text \<open>A plan is sent with its \<^verbatim>\<open>features\<close> replaced by the parsed value: the second component.\<close>

definition get_membership :: "(string \<Rightarrow> json option) \<Rightarrow> request \<Rightarrow> db
    \<Rightarrow> (membership_plan \<times> json) list response" where
  "get_membership parse req d =
     (case those (map (\<lambda>p. map_option (Pair p) (parse_features parse (membership_plan.features p)))
                   (sort_key membership_plan.sort_order
                      (if isAdmin req then rows (membership_plans d)
                       else filter (\<lambda>r. membership_plan.is_active r = Some 1)
                              (rows (membership_plans d))))) of
        None \<Rightarrow> Error 500 ''Failed to fetch plans''
      | Some ps \<Rightarrow> Json 200 ps)"

definition get_membership_plan :: "(string \<Rightarrow> json option) \<Rightarrow> request \<Rightarrow> nat \<Rightarrow> db
    \<Rightarrow> (membership_plan \<times> json) response" where
  "get_membership_plan parse req i d =
     (case select_by_id i (membership_plans d) of
        None \<Rightarrow> Error 404 ''Plan not found''
      | Some p \<Rightarrow>
          (case parse_features parse (membership_plan.features p) of
             None \<Rightarrow> Error 500 ''Failed to fetch plan''
           | Some f \<Rightarrow> Json 200 (p, f)))"

text \<open>\<^verbatim>\<open>Array.isArray(features) ? JSON.stringify(features) : features || '[]'\<close>.\<close>

fun featuresJson_create :: "(string list \<Rightarrow> string) \<Rightarrow> features_in \<Rightarrow> string" where
  "featuresJson_create stringify (FArray xs) = stringify xs"
| "featuresJson_create stringify (FString s) = (if s = [] then ''[]'' else s)"
| "featuresJson_create stringify FNull = ''[]''"
| "featuresJson_create stringify FUndefined = ''[]''"

definition insert_plan :: "(string list \<Rightarrow> string) \<Rightarrow> string \<Rightarrow> int \<Rightarrow> plan_body \<Rightarrow> nat \<Rightarrow> nat
    \<Rightarrow> membership_plan" where
  "insert_plan stringify n p b now i =
     \<lparr>id' = i, membership_plan.name = n, membership_plan.price = p,
      membership_plan.billing_period = Some (js_or [] (plan_body.billing_period b) ''month''),
      membership_plan.description = Some (js_or [] (plan_body.description b) []),
      membership_plan.features = Some (featuresJson_create stringify (plan_body.features b)),
      membership_plan.is_featured = Some (flag (plan_body.is_featured b)),
      membership_plan.is_active = flag_if_defined (plan_body.is_active b) (Some 1),
      membership_plan.sort_order = Some (js_or 0 (plan_body.sort_order b) 0),
      membership_plan.created_at = now\<rparr>"

text \<open>
  \<^verbatim>\<open>POST /api/membership\<close>. A \<^verbatim>\<open>null\<close> price passes the check \<^verbatim>\<open>price === undefined\<close>
  and violates \<^verbatim>\<open>price REAL NOT NULL\<close>.
\<close>

definition post_membership :: "(string list \<Rightarrow> string) \<Rightarrow> (string \<Rightarrow> json option)
    \<Rightarrow> (string \<Rightarrow> jwt_result) \<Rightarrow> request \<Rightarrow> plan_body \<Rightarrow> nat \<Rightarrow> db
    \<Rightarrow> (membership_plan \<times> json) response \<times> db" where
  "post_membership stringify parse verify req b now d = with_auth verify req d (\<lambda>u.
     (case plan_body.name b of
        Val n \<Rightarrow>
          (if n = [] \<or> plan_body.price b = Undefined
           then (Error 400 ''Name and price are required'', d)
           else
             (case plan_body.price b of
                Val p \<Rightarrow>
                  (let tbl = insert_row (insert_plan stringify n p b now) (membership_plans d);
                       d1 = d\<lparr>membership_plans := tbl\<rparr>
                   in (case select_by_id (seq tbl) tbl of
                         None \<Rightarrow> (Error 500 ''Failed to create plan'', d1)
                       | Some pl \<Rightarrow>
                           (case parse_stored parse (membership_plan.features pl) of
                              None \<Rightarrow> (Error 500 ''Failed to create plan'', d1)
                            | Some f \<Rightarrow>
                                (Json 201 (pl, f),
                                 logActivity (id' u) ''create'' (Some ''membership_plan'')
                                   (Some (id' pl)) (Some (''Created plan: '' @ n)) (ip req) now d1))))
              | _ \<Rightarrow> (Error 500 ''Failed to create plan'', d)))
      | _ \<Rightarrow> (Error 400 ''Name and price are required'', d)))"

text \<open>
  \<^verbatim>\<open>features !== undefined ? (Array.isArray(features) ? JSON.stringify(features) : features)
  : existing.features\<close>.
\<close>

fun featuresJson_update :: "(string list \<Rightarrow> string) \<Rightarrow> features_in \<Rightarrow> string option \<Rightarrow> string option" where
  "featuresJson_update stringify (FArray xs) e = Some (stringify xs)"
| "featuresJson_update stringify (FString s) e = Some s"
| "featuresJson_update stringify FNull e = None"
| "featuresJson_update stringify FUndefined e = e"

definition set_plan :: "(string list \<Rightarrow> string) \<Rightarrow> membership_plan \<Rightarrow> int \<Rightarrow> plan_body
    \<Rightarrow> membership_plan \<Rightarrow> membership_plan" where
  "set_plan stringify existing p b r =
     r\<lparr>membership_plan.name := js_or [] (plan_body.name b) (membership_plan.name existing),
       membership_plan.price := p,
       membership_plan.billing_period :=
         js_or_null [] (plan_body.billing_period b) (membership_plan.billing_period existing),
       membership_plan.description :=
         if_defined (plan_body.description b) (membership_plan.description existing),
       membership_plan.features :=
         featuresJson_update stringify (plan_body.features b) (membership_plan.features existing),
       membership_plan.is_featured :=
         flag_if_defined (plan_body.is_featured b) (membership_plan.is_featured existing),
       membership_plan.is_active :=
         flag_if_defined (plan_body.is_active b) (membership_plan.is_active existing),
       membership_plan.sort_order :=
         if_defined (plan_body.sort_order b) (membership_plan.sort_order existing)\<rparr>"

definition put_membership :: "(string list \<Rightarrow> string) \<Rightarrow> (string \<Rightarrow> json option)
    \<Rightarrow> (string \<Rightarrow> jwt_result) \<Rightarrow> request \<Rightarrow> nat \<Rightarrow> plan_body \<Rightarrow> nat \<Rightarrow> db
    \<Rightarrow> (membership_plan \<times> json) response \<times> db" where
  "put_membership stringify parse verify req i b now d = with_auth verify req d (\<lambda>u.
     (case select_by_id i (membership_plans d) of
        None \<Rightarrow> (Error 404 ''Plan not found'', d)
      | Some existing \<Rightarrow>
          (case if_defined (plan_body.price b) (Some (membership_plan.price existing)) of
             None \<Rightarrow> (Error 500 ''Failed to update plan'', d)
           | Some p \<Rightarrow>
               (let d1 = d\<lparr>membership_plans :=
                            update_by_id i (set_plan stringify existing p b) (membership_plans d)\<rparr>
                in (case select_by_id i (membership_plans d1) of
                      None \<Rightarrow> (Error 500 ''Failed to update plan'', d1)
                    | Some pl \<Rightarrow>
                        (case parse_stored parse (membership_plan.features pl) of
                           None \<Rightarrow> (Error 500 ''Failed to update plan'', d1)
                         | Some f \<Rightarrow>
                             (Json 200 (pl, f),
                              logActivity (id' u) ''update'' (Some ''membership_plan'')
                                (Some (id' pl))
                                (Some (''Updated plan: '' @ membership_plan.name pl))
                                (ip req) now d1)))))))"

text \<open>
  \<^verbatim>\<open>membership_inquiries.plan_id REFERENCES membership_plans(id)\<close>: the DELETE throws
  while an inquiry refers to the plan.
\<close>

definition delete_membership :: "(string \<Rightarrow> jwt_result) \<Rightarrow> request \<Rightarrow> nat \<Rightarrow> nat \<Rightarrow> db
    \<Rightarrow> string response \<times> db" where
  "delete_membership verify req i now d = with_auth verify req d (\<lambda>u.
     (case select_by_id i (membership_plans d) of
        None \<Rightarrow> (Error 404 ''Plan not found'', d)
      | Some pl \<Rightarrow>
          (if list_ex (\<lambda>q. membership_inquiry.plan_id q = Some i) (rows (membership_inquiries d))
           then (Error 500 ''Failed to delete plan'', d)
           else
             (Json 200 ''Plan deleted successfully'',
              logActivity (id' u) ''delete'' (Some ''membership_plan'') (Some (id' pl))
                (Some (''Deleted plan: '' @ membership_plan.name pl)) (ip req) now
                (d\<lparr>membership_plans := delete_by_id i (membership_plans d)\<rparr>)))))"

section \<open>Gallery (\<^verbatim>\<open>server/routes/gallery.js\<close>)\<close>

record album_body =
  name :: "string field"
  description :: "string field"
  cover_image :: "string field"
  is_active :: "bool field"
  sort_order :: "int field"

record image_body =
  album_id :: "nat field"
  file_path :: "string field"
  thumbnail_path :: "string field"
  caption :: "string field"
  sort_order :: "int field"

text \<open>
  \<^verbatim>\<open>GET /api/gallery/albums\<close>: each active album with \<^verbatim>\<open>COUNT(gi.id) as image_count\<close>.
  The handler does not read the request's headers.
\<close>

definition get_albums :: "request \<Rightarrow> db \<Rightarrow> (gallery_album \<times> nat) list response" where
  "get_albums req d =
     Json 200
       (map (\<lambda>ga. (ga, length (filter (\<lambda>gi. gallery_image.album_id gi = Some (id' ga))
                                 (rows (gallery_images d)))))
          (sort_key (\<lambda>r. (gallery_album.sort_order r, - int (gallery_album.created_at r)))
             (filter (\<lambda>r. gallery_album.is_active r = Some 1) (rows (gallery_albums d)))))"

definition get_album :: "request \<Rightarrow> nat \<Rightarrow> db \<Rightarrow> (gallery_album \<times> gallery_image list) response" where
  "get_album req i d =
     (case select_by_id i (gallery_albums d) of
        None \<Rightarrow> Error 404 ''Album not found''
      | Some a \<Rightarrow>
          Json 200 (a, sort_key (\<lambda>r. (gallery_image.sort_order r, - int (gallery_image.created_at r)))
                        (filter (\<lambda>gi. gallery_image.album_id gi = Some i) (rows (gallery_images d)))))"

definition insert_album :: "string \<Rightarrow> album_body \<Rightarrow> nat \<Rightarrow> nat \<Rightarrow> gallery_album" where
  "insert_album n b now i =
     \<lparr>id' = i, gallery_album.name = n,
      gallery_album.description = Some (js_or [] (album_body.description b) []),
      gallery_album.cover_image = Some (js_or [] (album_body.cover_image b) []),
      gallery_album.is_active = Some 1,
      gallery_album.sort_order = Some (js_or 0 (album_body.sort_order b) 0),
      gallery_album.created_at = now\<rparr>"

definition post_album :: "(string \<Rightarrow> jwt_result) \<Rightarrow> request \<Rightarrow> album_body \<Rightarrow> nat \<Rightarrow> db
    \<Rightarrow> gallery_album response \<times> db" where
  "post_album verify req b now d = with_auth verify req d (\<lambda>u.
     (case album_body.name b of
        Val n \<Rightarrow>
          (if n = [] then (Error 400 ''Album name is required'', d)
           else
             (let tbl = insert_row (insert_album n b now) (gallery_albums d);
                  d1 = d\<lparr>gallery_albums := tbl\<rparr>
              in (case select_by_id (seq tbl) tbl of
                    None \<Rightarrow> (Error 500 ''Failed to create album'', d1)
                  | Some a \<Rightarrow>
                      (Json 201 a,
                       logActivity (id' u) ''create'' (Some ''gallery_album'') (Some (id' a))
                         (Some (''Created album: '' @ n)) (ip req) now d1))))
      | _ \<Rightarrow> (Error 400 ''Album name is required'', d)))"

definition set_album :: "gallery_album \<Rightarrow> album_body \<Rightarrow> gallery_album \<Rightarrow> gallery_album" where
  "set_album existing b r =
     r\<lparr>gallery_album.name := js_or [] (album_body.name b) (gallery_album.name existing),
       gallery_album.description :=
         if_defined (album_body.description b) (gallery_album.description existing),
       gallery_album.cover_image :=
         if_defined (album_body.cover_image b) (gallery_album.cover_image existing),
       gallery_album.is_active :=
         flag_if_defined (album_body.is_active b) (gallery_album.is_active existing),
       gallery_album.sort_order :=
         if_defined (album_body.sort_order b) (gallery_album.sort_order existing)\<rparr>"

definition put_album :: "(string \<Rightarrow> jwt_result) \<Rightarrow> request \<Rightarrow> nat \<Rightarrow> album_body \<Rightarrow> nat \<Rightarrow> db
    \<Rightarrow> gallery_album response \<times> db" where
  "put_album verify req i b now d = with_auth verify req d (\<lambda>u.
     (case select_by_id i (gallery_albums d) of
        None \<Rightarrow> (Error 404 ''Album not found'', d)
      | Some existing \<Rightarrow>
          (let d1 = d\<lparr>gallery_albums := update_by_id i (set_album existing b) (gallery_albums d)\<rparr>
           in (case select_by_id i (gallery_albums d1) of
                 None \<Rightarrow> (Error 500 ''Failed to update album'', d1)
               | Some a \<Rightarrow>
                   (Json 200 a,
                    logActivity (id' u) ''update'' (Some ''gallery_album'') (Some (id' a))
                      (Some (''Updated album: '' @ gallery_album.name a)) (ip req) now d1)))))"

text \<open>
  \<^verbatim>\<open>DELETE FROM gallery_albums WHERE id = ?\<close> under \<^verbatim>\<open>foreign_keys = ON\<close> and
  \<^verbatim>\<open>gallery_images.album_id REFERENCES gallery_albums(id) ON DELETE CASCADE\<close>: the storage
  engine deletes the album's images with it.
\<close>

definition delete_album_cascade :: "nat \<Rightarrow> db \<Rightarrow> db" where
  "delete_album_cascade i d =
     d\<lparr>gallery_albums := delete_by_id i (gallery_albums d),
       gallery_images := (gallery_images d)
         \<lparr>rows := filter (\<lambda>gi. gallery_image.album_id gi \<noteq> Some i) (rows (gallery_images d))\<rparr>\<rparr>"

definition delete_album :: "(string \<Rightarrow> jwt_result) \<Rightarrow> request \<Rightarrow> nat \<Rightarrow> nat \<Rightarrow> db
    \<Rightarrow> string response \<times> db" where
  "delete_album verify req i now d = with_auth verify req d (\<lambda>u.
     (case select_by_id i (gallery_albums d) of
        None \<Rightarrow> (Error 404 ''Album not found'', d)
      | Some a \<Rightarrow>
          (Json 200 ''Album deleted successfully'',
           logActivity (id' u) ''delete'' (Some ''gallery_album'') (Some (id' a))
             (Some (''Deleted album: '' @ gallery_album.name a)) (ip req) now
             (delete_album_cascade i d))))"

definition insert_image :: "string \<Rightarrow> image_body \<Rightarrow> nat \<Rightarrow> nat \<Rightarrow> gallery_image" where
  "insert_image fp b now i =
     \<lparr>id' = i, gallery_image.album_id = js_or_null 0 (image_body.album_id b) None,
      gallery_image.file_path = fp,
      gallery_image.thumbnail_path = Some (js_or [] (image_body.thumbnail_path b) []),
      gallery_image.caption = Some (js_or [] (image_body.caption b) []),
      gallery_image.sort_order = Some (js_or 0 (image_body.sort_order b) 0),
      gallery_image.created_at = now\<rparr>"

definition post_image :: "(string \<Rightarrow> jwt_result) \<Rightarrow> request \<Rightarrow> image_body \<Rightarrow> nat \<Rightarrow> db
    \<Rightarrow> gallery_image response \<times> db" where
  "post_image verify req b now d = with_auth verify req d (\<lambda>u.
     (case image_body.file_path b of
        Val fp \<Rightarrow>
          (if fp = [] then (Error 400 ''File path is required'', d)
           else if \<not> fk_ok (js_or_null 0 (image_body.album_id b) None) (gallery_albums d)
           then (Error 500 ''Failed to add image'', d)
           else
             (let tbl = insert_row (insert_image fp b now) (gallery_images d);
                  d1 = d\<lparr>gallery_images := tbl\<rparr>
              in (case select_by_id (seq tbl) tbl of
                    None \<Rightarrow> (Error 500 ''Failed to add image'', d1)
                  | Some g \<Rightarrow>
                      (Json 201 g,
                       logActivity (id' u) ''create'' (Some ''gallery_image'') (Some (id' g))
                         (Some ''Added gallery image'') (ip req) now d1))))
      | _ \<Rightarrow> (Error 400 ''File path is required'', d)))"

definition set_image :: "gallery_image \<Rightarrow> image_body \<Rightarrow> gallery_image \<Rightarrow> gallery_image" where
  "set_image existing b r =
     r\<lparr>gallery_image.album_id :=
         if_defined (image_body.album_id b) (gallery_image.album_id existing),
       gallery_image.caption := if_defined (image_body.caption b) (gallery_image.caption existing),
       gallery_image.sort_order :=
         if_defined (image_body.sort_order b) (gallery_image.sort_order existing)\<rparr>"

text \<open>
  \<^verbatim>\<open>PUT /api/gallery/images/:id\<close>: after the UPDATE the handler sends the row it reads
  back; it has no call of \<^verbatim>\<open>logActivity\<close>.
\<close>

definition put_image :: "(string \<Rightarrow> jwt_result) \<Rightarrow> request \<Rightarrow> nat \<Rightarrow> image_body \<Rightarrow> nat \<Rightarrow> db
    \<Rightarrow> gallery_image option response \<times> db" where
  "put_image verify req i b now d = with_auth verify req d (\<lambda>u.
     (case select_by_id i (gallery_images d) of
        None \<Rightarrow> (Error 404 ''Image not found'', d)
      | Some existing \<Rightarrow>
          (if \<not> fk_ok (if_defined (image_body.album_id b) (gallery_image.album_id existing))
                  (gallery_albums d)
           then (Error 500 ''Failed to update image'', d)
           else
             (let d1 = d\<lparr>gallery_images := update_by_id i (set_image existing b) (gallery_images d)\<rparr>
              in (Json 200 (select_by_id i (gallery_images d1)), d1)))))"

definition delete_image :: "(string \<Rightarrow> jwt_result) \<Rightarrow> request \<Rightarrow> nat \<Rightarrow> nat \<Rightarrow> db
    \<Rightarrow> string response \<times> db" where
  "delete_image verify req i now d = with_auth verify req d (\<lambda>u.
     (case select_by_id i (gallery_images d) of
        None \<Rightarrow> (Error 404 ''Image not found'', d)
      | Some g \<Rightarrow>
          (Json 200 ''Image deleted successfully'',
           logActivity (id' u) ''delete'' (Some ''gallery_image'') (Some (id' g))
             (Some ''Deleted gallery image'') (ip req) now
             (d\<lparr>gallery_images := delete_by_id i (gallery_images d)\<rparr>))))"

section \<open>Media (\<^verbatim>\<open>server/routes/media.js\<close>)\<close>

record media_body =
  alt_text :: "string field"

text \<open>
  \<^verbatim>\<open>PUT /api/media/:id\<close>: the one statement
  \<^verbatim>\<open>UPDATE media SET alt_text = ? WHERE id = ?\<close> run with \<^verbatim>\<open>alt_text || ''\<close>, then
  the row read back; the handler has no call of \<^verbatim>\<open>logActivity\<close>.
\<close>

definition put_media :: "(string \<Rightarrow> jwt_result) \<Rightarrow> request \<Rightarrow> nat \<Rightarrow> media_body \<Rightarrow> db
    \<Rightarrow> media_row option response \<times> db" where
  "put_media verify req i b d = with_auth verify req d (\<lambda>u.
     (case select_by_id i (media d) of
        None \<Rightarrow> (Error 404 ''Media not found'', d)
      | Some existing \<Rightarrow>
          (let d1 = d\<lparr>media := update_by_id i
                       (\<lambda>r. r\<lparr>media_row.alt_text := Some (js_or [] (media_body.alt_text b) [])\<rparr>)
                       (media d)\<rparr>
           in (Json 200 (select_by_id i (media d1)), d1))))"

section \<open>Pages (\<^verbatim>\<open>server/routes/pages.js\<close>)\<close>

record page_body =
  title :: "string field"
  slug :: "string field"
  content :: "string field"
  meta_title :: "string field"
  meta_description :: "string field"
  meta_keywords :: "string field"
  is_published :: "bool field"

text \<open>JavaScript truthiness of a flag column read back from the store.\<close>

fun column_truthy :: "int option \<Rightarrow> bool" where
  "column_truthy None = False"
| "column_truthy (Some n) = (n \<noteq> 0)"

definition get_pages :: "request \<Rightarrow> db \<Rightarrow> page list response" where
  "get_pages req d =
     (if isAdmin req
      then Json 200 (sort_key (\<lambda>r. - int (page.created_at r)) (rows (pages d)))
      else Json 200 (sort_key (\<lambda>r. - int (page.created_at r))
             (filter (\<lambda>r. page.is_published r = Some 1) (rows (pages d)))))"

text \<open>\<^verbatim>\<open>GET /api/pages/:slug\<close>.\<close>

definition get_page :: "request \<Rightarrow> string \<Rightarrow> db \<Rightarrow> page response" where
  "get_page req s d =
     (case find (\<lambda>r. page.slug r = s) (rows (pages d)) of
        None \<Rightarrow> Error 404 ''Page not found''
      | Some p \<Rightarrow>
          (if \<not> column_truthy (page.is_published p) \<and> \<not> isAdmin req
           then Error 404 ''Page not found''
           else Json 200 p))"

definition insert_page :: "string \<Rightarrow> string \<Rightarrow> page_body \<Rightarrow> nat \<Rightarrow> nat \<Rightarrow> page" where
  "insert_page t s b now i =
     \<lparr>id' = i, page.title = t, page.slug = s,
      page.content = Some (js_or [] (page_body.content b) []),
      page.meta_title = Some (js_or [] (page_body.meta_title b) t),
      page.meta_description = Some (js_or [] (page_body.meta_description b) []),
      page.meta_keywords = Some (js_or [] (page_body.meta_keywords b) []),
      page.is_published = Some (flag (page_body.is_published b)),
      page.created_at = now, page.updated_at = now\<rparr>"

definition post_page :: "(string \<Rightarrow> jwt_result) \<Rightarrow> request \<Rightarrow> page_body \<Rightarrow> nat \<Rightarrow> db
    \<Rightarrow> page response \<times> db" where
  "post_page verify req b now d = with_auth verify req d (\<lambda>u.
     (case (page_body.title b, page_body.slug b) of
        (Val t, Val s) \<Rightarrow>
          (if t = [] \<or> s = [] then (Error 400 ''Title and slug are required'', d)
           else if find (\<lambda>r. page.slug r = s) (rows (pages d)) \<noteq> None
           then (Error 400 ''Slug already exists'', d)
           else
             (let tbl = insert_row (insert_page t s b now) (pages d);
                  d1 = d\<lparr>pages := tbl\<rparr>
              in (case select_by_id (seq tbl) tbl of
                    None \<Rightarrow> (Error 500 ''Failed to create page'', d1)
                  | Some p \<Rightarrow>
                      (Json 201 p,
                       logActivity (id' u) ''create'' (Some ''page'') (Some (id' p))
                         (Some (''Created page: '' @ t)) (ip req) now d1))))
      | _ \<Rightarrow> (Error 400 ''Title and slug are required'', d)))"

definition set_page :: "page \<Rightarrow> page_body \<Rightarrow> nat \<Rightarrow> page \<Rightarrow> page" where
  "set_page existing b now r =
     r\<lparr>page.title := js_or [] (page_body.title b) (page.title existing),
       page.slug := js_or [] (page_body.slug b) (page.slug existing),
       page.content := if_defined (page_body.content b) (page.content existing),
       page.meta_title := js_or_null [] (page_body.meta_title b) (page.meta_title existing),
       page.meta_description :=
         if_defined (page_body.meta_description b) (page.meta_description existing),
       page.meta_keywords := if_defined (page_body.meta_keywords b) (page.meta_keywords existing),
       page.is_published := flag_if_defined (page_body.is_published b) (page.is_published existing),
       page.updated_at := now\<rparr>"

text \<open>
  \<^verbatim>\<open>PUT /api/pages/:id\<close>. The handler's check is
  \<^verbatim>\<open>slug && slug !== existing.slug\<close>, then
  \<^verbatim>\<open>SELECT id FROM pages WHERE slug = ? AND id != ?\<close>. The UPDATE itself throws when
  it would break \<^verbatim>\<open>slug TEXT UNIQUE\<close>.
\<close>

definition put_page :: "(string \<Rightarrow> jwt_result) \<Rightarrow> request \<Rightarrow> nat \<Rightarrow> page_body \<Rightarrow> nat \<Rightarrow> db
    \<Rightarrow> page response \<times> db" where
  "put_page verify req i b now d = with_auth verify req d (\<lambda>u.
     (case select_by_id i (pages d) of
        None \<Rightarrow> (Error 404 ''Page not found'', d)
      | Some existing \<Rightarrow>
          (if truthy [] (page_body.slug b) \<and> page_body.slug b \<noteq> Val (page.slug existing)
              \<and> list_ex (\<lambda>r. Val (page.slug r) = page_body.slug b \<and> id' r \<noteq> i) (rows (pages d))
           then (Error 400 ''Slug already exists'', d)
           else if list_ex (\<lambda>r. page.slug r = js_or [] (page_body.slug b) (page.slug existing)
                                \<and> id' r \<noteq> i) (rows (pages d))
           then (Error 500 ''Failed to update page'', d)
           else
             (let d1 = d\<lparr>pages := update_by_id i (set_page existing b now) (pages d)\<rparr>
              in (case select_by_id i (pages d1) of
                    None \<Rightarrow> (Error 500 ''Failed to update page'', d1)
                  | Some p \<Rightarrow>
                      (Json 200 p,
                       logActivity (id' u) ''update'' (Some ''page'') (Some (id' p))
                         (Some (''Updated page: '' @ page.title p)) (ip req) now d1))))))"

definition delete_page :: "(string \<Rightarrow> jwt_result) \<Rightarrow> request \<Rightarrow> nat \<Rightarrow> nat \<Rightarrow> db
    \<Rightarrow> string response \<times> db" where
  "delete_page verify req i now d = with_auth verify req d (\<lambda>u.
     (case select_by_id i (pages d) of
        None \<Rightarrow> (Error 404 ''Page not found'', d)
      | Some p \<Rightarrow>
          (Json 200 ''Page deleted successfully'',
           logActivity (id' u) ''delete'' (Some ''page'') (Some (id' p))
             (Some (''Deleted page: '' @ page.title p)) (ip req) now
             (d\<lparr>pages := delete_by_id i (pages d)\<rparr>))))"

section \<open>Blog posts (\<^verbatim>\<open>server/routes/blog.js\<close>)\<close>

record post_body =
  title :: "string field"
  slug :: "string field"
  excerpt :: "string field"
  content :: "string field"
  featured_image :: "string field"
  category :: "string field"
  tags :: "string field"
  status :: "string field"
  publish_date :: "nat field"

text \<open>\<^verbatim>\<open>optionalAuth\<close>: \<^verbatim>\<open>req.user\<close> is the verified token's user, or nothing.\<close>

definition optionalAuth :: "(string \<Rightarrow> jwt_result) \<Rightarrow> request \<Rightarrow> db \<Rightarrow> user option" where
  "optionalAuth verify req d =
     (case bearer_token (authorization req) of
        None \<Rightarrow> None
      | Some tok \<Rightarrow>
          (case verify tok of
             Decoded uid \<Rightarrow> select_by_id uid (users d)
           | TokenExpired \<Rightarrow> None
           | TokenInvalid \<Rightarrow> None))"

text \<open>\<^verbatim>\<open>new Date(post.publish_date) > new Date()\<close>; a NULL date is the epoch.\<close>

fun date_after :: "nat option \<Rightarrow> nat \<Rightarrow> bool" where
  "date_after None now = False"
| "date_after (Some t) now = (t > now)"

text \<open>\<^verbatim>\<open>GET /api/blog/:slug\<close>.\<close>

definition get_post :: "(string \<Rightarrow> jwt_result) \<Rightarrow> request \<Rightarrow> string \<Rightarrow> nat \<Rightarrow> db \<Rightarrow> blog_post response" where
  "get_post verify req s now d =
     (case find (\<lambda>r. blog_post.slug r = s) (rows (blog_posts d)) of
        None \<Rightarrow> Error 404 ''Post not found''
      | Some p \<Rightarrow>
          (if optionalAuth verify req d = None
              \<and> (blog_post.status p \<noteq> Some ''published'' \<or> date_after (blog_post.publish_date p) now)
           then Error 404 ''Post not found''
           else Json 200 p))"

text \<open>\<^verbatim>\<open>publish_date || d\<close>: a date that is given is truthy.\<close>

fun date_or :: "nat field \<Rightarrow> nat option \<Rightarrow> nat option" where
  "date_or (Val t) d = Some t"
| "date_or Null d = d"
| "date_or Undefined d = d"

definition insert_post :: "string \<Rightarrow> string \<Rightarrow> post_body \<Rightarrow> nat \<Rightarrow> nat \<Rightarrow> nat \<Rightarrow> blog_post" where
  "insert_post t s b uid now i =
     \<lparr>id' = i, blog_post.title = t, blog_post.slug = s,
      blog_post.excerpt = Some (js_or [] (post_body.excerpt b) []),
      blog_post.content = Some (js_or [] (post_body.content b) []),
      blog_post.featured_image = Some (js_or [] (post_body.featured_image b) []),
      blog_post.category = Some (js_or [] (post_body.category b) []),
      blog_post.tags = Some (js_or [] (post_body.tags b) []),
      blog_post.status = Some (js_or [] (post_body.status b) ''draft''),
      blog_post.publish_date = date_or (post_body.publish_date b) (Some now),
      blog_post.author_id = Some uid,
      blog_post.created_at = now, blog_post.updated_at = now\<rparr>"

definition post_blog :: "(string \<Rightarrow> jwt_result) \<Rightarrow> request \<Rightarrow> post_body \<Rightarrow> nat \<Rightarrow> db
    \<Rightarrow> blog_post response \<times> db" where
  "post_blog verify req b now d = with_auth verify req d (\<lambda>u.
     (case (post_body.title b, post_body.slug b) of
        (Val t, Val s) \<Rightarrow>
          (if t = [] \<or> s = [] then (Error 400 ''Title and slug are required'', d)
           else if find (\<lambda>r. blog_post.slug r = s) (rows (blog_posts d)) \<noteq> None
           then (Error 400 ''Slug already exists'', d)
           else if \<not> fk_ok (Some (id' u)) (users d)
           then (Error 500 ''Failed to create post'', d)
           else
             (let tbl = insert_row (insert_post t s b (id' u) now) (blog_posts d);
                  d1 = d\<lparr>blog_posts := tbl\<rparr>
              in (case select_by_id (seq tbl) tbl of
                    None \<Rightarrow> (Error 500 ''Failed to create post'', d1)
                  | Some p \<Rightarrow>
                      (Json 201 p,
                       logActivity (id' u) ''create'' (Some ''blog_post'') (Some (id' p))
                         (Some (''Created post: '' @ t)) (ip req) now d1))))
      | _ \<Rightarrow> (Error 400 ''Title and slug are required'', d)))"

definition set_post :: "blog_post \<Rightarrow> post_body \<Rightarrow> nat \<Rightarrow> blog_post \<Rightarrow> blog_post" where
  "set_post existing b now r =
     r\<lparr>blog_post.title := js_or [] (post_body.title b) (blog_post.title existing),
       blog_post.slug := js_or [] (post_body.slug b) (blog_post.slug existing),
       blog_post.excerpt := if_defined (post_body.excerpt b) (blog_post.excerpt existing),
       blog_post.content := if_defined (post_body.content b) (blog_post.content existing),
       blog_post.featured_image :=
         if_defined (post_body.featured_image b) (blog_post.featured_image existing),
       blog_post.category := if_defined (post_body.category b) (blog_post.category existing),
       blog_post.tags := if_defined (post_body.tags b) (blog_post.tags existing),
       blog_post.status := js_or_null [] (post_body.status b) (blog_post.status existing),
       blog_post.publish_date :=
         date_or (post_body.publish_date b) (blog_post.publish_date existing),
       blog_post.updated_at := now\<rparr>"

definition put_blog :: "(string \<Rightarrow> jwt_result) \<Rightarrow> request \<Rightarrow> nat \<Rightarrow> post_body \<Rightarrow> nat \<Rightarrow> db
    \<Rightarrow> blog_post response \<times> db" where
  "put_blog verify req i b now d = with_auth verify req d (\<lambda>u.
     (case select_by_id i (blog_posts d) of
        None \<Rightarrow> (Error 404 ''Post not found'', d)
      | Some existing \<Rightarrow>
          (if truthy [] (post_body.slug b) \<and> post_body.slug b \<noteq> Val (blog_post.slug existing)
              \<and> list_ex (\<lambda>r. Val (blog_post.slug r) = post_body.slug b \<and> id' r \<noteq> i)
                    (rows (blog_posts d))
           then (Error 400 ''Slug already exists'', d)
           else if list_ex (\<lambda>r. blog_post.slug r = js_or [] (post_body.slug b) (blog_post.slug existing)
                                \<and> id' r \<noteq> i) (rows (blog_posts d))
           then (Error 500 ''Failed to update post'', d)
           else
             (let d1 = d\<lparr>blog_posts := update_by_id i (set_post existing b now) (blog_posts d)\<rparr>
              in (case select_by_id i (blog_posts d1) of
                    None \<Rightarrow> (Error 500 ''Failed to update post'', d1)
                  | Some p \<Rightarrow>
                      (Json 200 p,
                       logActivity (id' u) ''update'' (Some ''blog_post'') (Some (id' p))
                         (Some (''Updated post: '' @ blog_post.title p)) (ip req) now d1))))))"

definition delete_blog :: "(string \<Rightarrow> jwt_result) \<Rightarrow> request \<Rightarrow> nat \<Rightarrow> nat \<Rightarrow> db
    \<Rightarrow> string response \<times> db" where
  "delete_blog verify req i now d = with_auth verify req d (\<lambda>u.
     (case select_by_id i (blog_posts d) of
        None \<Rightarrow> (Error 404 ''Post not found'', d)
      | Some p \<Rightarrow>
          (Json 200 ''Post deleted successfully'',
           logActivity (id' u) ''delete'' (Some ''blog_post'') (Some (id' p))
             (Some (''Deleted post: '' @ blog_post.title p)) (ip req) now
             (d\<lparr>blog_posts := delete_by_id i (blog_posts d)\<rparr>))))"

section \<open>Settings (\<^verbatim>\<open>server/routes/settings.js\<close> and \<^verbatim>\<open>api/settings.js\<close>)\<close>

text \<open>The body of \<^verbatim>\<open>PUT /api/settings\<close>: \<^verbatim>\<open>Object.entries(updates)\<close> when it is an object.\<close>

datatype settings_body = NotObject | Object "(string \<times> js_value) list"

definition digit_char :: "nat \<Rightarrow> char" where
  "digit_char n = char_of (48 + n)"

fun show_nat :: "nat \<Rightarrow> string" where
  "show_nat n = (if n < 10 then [digit_char n] else show_nat (n div 10) @ [digit_char (n mod 10)])"

declare show_nat.simps [simp del]

definition show_int :: "int \<Rightarrow> string" where
  "show_int n = (if n < 0 then CHR ''-'' # show_nat (nat (- n)) else show_nat (nat n))"

text \<open>\<^verbatim>\<open>String(value)\<close>.\<close>

fun js_String :: "js_value \<Rightarrow> string" where
  "js_String (VString s) = s"
| "js_String (VNumber n) = show_int n"
| "js_String (VBoolean b) = (if b then ''true'' else ''false'')"
| "js_String VNull = ''null''"

text \<open>
  \<^verbatim>\<open>settings.forEach(s => { settingsObj[s.key] = s.value })\<close>: the object sent by the
  GET routes, as a map from keys to (nullable) values.
\<close>

definition settings_object :: "setting list \<Rightarrow> (string \<rightharpoonup> string option)" where
  "settings_object ss = fold (\<lambda>s m. m(setting.key s \<mapsto> setting.value' s)) ss Map.empty"

definition get_settings :: "db \<Rightarrow> (string \<rightharpoonup> string option) response" where
  "get_settings d = Json 200 (settings_object (rows (settings d)))"

text \<open>
  \<^verbatim>\<open>INSERT INTO settings (key, value, type) VALUES (?, ?, 'string')
  ON CONFLICT(key) DO UPDATE SET value = excluded.value\<close>. The attempted INSERT
  takes a rowid from the AUTOINCREMENT counter also when the key is there and the row is
  updated in place.
\<close>

definition upsert_setting :: "string \<Rightarrow> string \<Rightarrow> setting table \<Rightarrow> setting table" where
  "upsert_setting k v t =
     (if list_ex (\<lambda>r. setting.key r = k) (rows t)
      then \<lparr>rows = map (\<lambda>r. if setting.key r = k then r\<lparr>setting.value' := Some v\<rparr> else r) (rows t),
            seq = next_rowid t\<rparr>
      else insert_row (\<lambda>i. \<lparr>id' = i, setting.key = k, setting.value' = Some v,
                            setting.type' = Some ''string''\<rparr>) t)"

text \<open>
  The body of \<^verbatim>\<open>db.transaction\<close>: one \<^verbatim>\<open>updateStmt.run(key, String(value))\<close> per entry.
  \<open>fails k\<close> says that the statement for key \<open>k\<close> throws (an error of the storage engine);
  \<open>None\<close> is the throw.
\<close>

fun updateMany :: "(string \<Rightarrow> bool) \<Rightarrow> (string \<times> js_value) list \<Rightarrow> setting table \<Rightarrow> setting table option" where
  "updateMany fails [] t = Some t"
| "updateMany fails ((k, v) # es) t =
     (if fails k then None else updateMany fails es (upsert_setting k (js_String v) t))"

text \<open>
  \<^verbatim>\<open>PUT /api/settings\<close> of the router: a throw inside the transaction rolls every
  upsert back and reaches the handler's \<^verbatim>\<open>catch\<close>.
\<close>

definition put_settings :: "(string \<Rightarrow> jwt_result) \<Rightarrow> (string \<Rightarrow> bool) \<Rightarrow> request \<Rightarrow> settings_body
    \<Rightarrow> nat \<Rightarrow> db \<Rightarrow> (string \<rightharpoonup> string option) response \<times> db" where
  "put_settings verify fails req updates now d = with_auth verify req d (\<lambda>u.
     (case updates of
        NotObject \<Rightarrow> (Error 400 ''Settings object required'', d)
      | Object es \<Rightarrow>
          (case updateMany fails es (settings d) of
             None \<Rightarrow> (Error 500 ''Failed to update settings'', d)
           | Some t \<Rightarrow>
               (let d1 = logActivity (id' u) ''update'' (Some ''settings'') None
                           (Some (''Updated '' @ show_nat (length es) @ '' settings''))
                           (ip req) now (d\<lparr>settings := t\<rparr>)
                in (Json 200 (settings_object (rows (settings d1))), d1)))))"

text \<open>
  The serverless \<^verbatim>\<open>authenticateToken(req)\<close> (\<^verbatim>\<open>api/_utils/auth.js\<close>): the decoded
  token, without a look at the users table.
\<close>

definition api_authenticateToken :: "(string \<Rightarrow> jwt_result) \<Rightarrow> request \<Rightarrow> (nat \<times> string) + nat" where
  "api_authenticateToken verify req =
     (case bearer_token (authorization req) of
        None \<Rightarrow> Inl (401, ''Access token required'')
      | Some tok \<Rightarrow>
          (case verify tok of
             Decoded uid \<Rightarrow> Inr uid
           | TokenExpired \<Rightarrow> Inl (403, ''Invalid or expired token'')
           | TokenInvalid \<Rightarrow> Inl (403, ''Invalid or expired token'')))"

text \<open>
  What the \<^verbatim>\<open>TEXT\<close> column \<^verbatim>\<open>value\<close> holds after the client has bound the argument:
  a string as it is, \<^verbatim>\<open>null\<close> as NULL; a number is bound as a REAL and a boolean as
  the number 1 or 0, and the column stores the text of that REAL (\<^verbatim>\<open>5.0\<close> for 5;
  the numbers are integers of fewer than 16 digits, which that text writes without an
  exponent).
\<close>

fun bind_value :: "js_value \<Rightarrow> string option" where
  "bind_value (VString s) = Some s"
| "bind_value (VNumber n) = Some (show_int n @ ''.0'')"
| "bind_value (VBoolean b) = Some (if b then ''1.0'' else ''0.0'')"
| "bind_value VNull = None"

text \<open>
  \<^verbatim>\<open>INSERT OR REPLACE INTO settings (key, value) VALUES (?, ?)\<close>: the row with the key
  is deleted and a new row is inserted, with the default type.
\<close>

definition replace_setting :: "string \<Rightarrow> string option \<Rightarrow> setting table \<Rightarrow> setting table" where
  "replace_setting k v t =
     insert_row (\<lambda>i. \<lparr>id' = i, setting.key = k, setting.value' = v, setting.type' = Some ''string''\<rparr>)
       (t\<lparr>rows := filter (\<lambda>r. setting.key r \<noteq> k) (rows t)\<rparr>)"

text \<open>
  The loop of the serverless PUT: one awaited \<^verbatim>\<open>db.execute\<close> per entry, each its own
  statement. The result says whether the loop finished, with the table as the statements
  that ran left it.
\<close>

fun execute_each :: "(string \<Rightarrow> bool) \<Rightarrow> (string \<times> js_value) list \<Rightarrow> setting table \<Rightarrow> bool \<times> setting table" where
  "execute_each fails [] t = (True, t)"
| "execute_each fails ((k, v) # es) t =
     (if fails k then (False, t) else execute_each fails es (replace_setting k (bind_value v) t))"

definition settings_handler_put :: "(string \<Rightarrow> jwt_result) \<Rightarrow> (string \<Rightarrow> bool) \<Rightarrow> request
    \<Rightarrow> (string \<times> js_value) list \<Rightarrow> db \<Rightarrow> string response \<times> db" where
  "settings_handler_put verify fails req updates d =
     (case api_authenticateToken verify req of
        Inl (s, m) \<Rightarrow> (Error s m, d)
      | Inr uid \<Rightarrow>
          (case execute_each fails updates (settings d) of
             (True, t) \<Rightarrow> (Json 200 ''Settings updated'', d\<lparr>settings := t\<rparr>)
           | (False, t) \<Rightarrow> (Error 500 ''Failed to update settings'', d\<lparr>settings := t\<rparr>)))"

definition settings_handler_get :: "db \<Rightarrow> (string \<rightharpoonup> string option) response" where
  "settings_handler_get d = Json 200 (settings_object (rows (settings d)))"

section \<open>Example data\<close>

definition empty_table :: "'r table" where
  "empty_table = \<lparr>rows = [], seq = 0\<rparr>"

definition admin_user :: user where
  "admin_user = \<lparr>id' = 1, user.email = ''admin@powerhousegym.com'',
     user.password_hash = ''$2b$12$admin123'', user.name = ''Admin'',
     user.role = Some ''super_admin'', user.created_at = 0, user.last_login = None\<rparr>"

text \<open>The store after \<^verbatim>\<open>initDatabase\<close>, without the seeded settings and plans.\<close>

definition db0 :: db where
  "db0 = \<lparr>users = \<lparr>rows = [admin_user], seq = 1\<rparr>, pages = empty_table,
     blog_posts = empty_table, trainers = empty_table, classes = empty_table,
     membership_plans = empty_table, membership_inquiries = empty_table,
     testimonials = empty_table, gallery_albums = empty_table,
     gallery_images = empty_table, media = empty_table, settings = empty_table,
     activity_logs = empty_table\<rparr>"

text \<open>Stand-ins for the collaborators, used on concrete inputs only.\<close>

definition compare0 :: "string \<Rightarrow> string \<Rightarrow> bool" where
  "compare0 p h = (h = ''$2b$12$'' @ p)"

definition sign0 :: "nat \<Rightarrow> string \<Rightarrow> string option \<Rightarrow> string" where
  "sign0 uid e r = ''token-'' @ e"

definition verify0 :: "string \<Rightarrow> jwt_result" where
  "verify0 tok = (if tok = ''token-admin@powerhousegym.com'' then Decoded 1
                  else if tok = ''old'' then TokenExpired else TokenInvalid)"

definition anonymous :: request where
  "anonymous = \<lparr>authorization = None, ip = Some ''127.0.0.1''\<rparr>"

definition admin_request :: request where
  "admin_request = \<lparr>authorization = Some ''Bearer token-admin@powerhousegym.com'',
     ip = Some ''127.0.0.1''\<rparr>"

text \<open>An approved and a pending testimonial.\<close>

definition testimonial_ram :: testimonial where
  "testimonial_ram = \<lparr>id' = 1, testimonial.client_name = ''Ram'',
     testimonial.client_photo = Some [], testimonial.client_title = Some ''Member'',
     testimonial.content = ''Great gym'', testimonial.rating = Some 5,
     testimonial.is_approved = Some 1, testimonial.sort_order = Some 0,
     testimonial.created_at = 10\<rparr>"

definition testimonial_pending :: testimonial where
  "testimonial_pending = \<lparr>id' = 2, testimonial.client_name = ''Sita'',
     testimonial.client_photo = Some [], testimonial.client_title = Some [],
     testimonial.content = ''Not reviewed yet'', testimonial.rating = Some 4,
     testimonial.is_approved = Some 0, testimonial.sort_order = Some 0,
     testimonial.created_at = 11\<rparr>"

text \<open>An active and an inactive album, and their images.\<close>

definition album_events :: gallery_album where
  "album_events = \<lparr>id' = 1, gallery_album.name = ''Events'',
     gallery_album.description = Some [], gallery_album.cover_image = Some [],
     gallery_album.is_active = Some 1, gallery_album.sort_order = Some 0,
     gallery_album.created_at = 12\<rparr>"

definition album_hidden :: gallery_album where
  "album_hidden = \<lparr>id' = 2, gallery_album.name = ''Renovation'',
     gallery_album.description = Some [], gallery_album.cover_image = Some [],
     gallery_album.is_active = Some 0, gallery_album.sort_order = Some 1,
     gallery_album.created_at = 13\<rparr>"

definition image_of :: "nat \<Rightarrow> nat option \<Rightarrow> gallery_image" where
  "image_of i a = \<lparr>id' = i, gallery_image.album_id = a,
     gallery_image.file_path = ''/uploads/photo.webp'', gallery_image.thumbnail_path = Some [],
     gallery_image.caption = Some [], gallery_image.sort_order = Some 0,
     gallery_image.created_at = 14\<rparr>"

definition trainer_off :: trainer where
  "trainer_off = \<lparr>id' = 1, trainer.name = ''Hari'', trainer.specialty = Some ''Boxing'',
     trainer.bio = Some [], trainer.photo = Some [], trainer.email = Some [],
     trainer.phone = Some [], trainer.social_facebook = Some [],
     trainer.social_instagram = Some [], trainer.social_twitter = Some [],
     trainer.certifications = Some [], trainer.is_active = Some 0,
     trainer.sort_order = Some 0, trainer.created_at = 15\<rparr>"

definition page_about :: page where
  "page_about = \<lparr>id' = 1, page.title = ''About'', page.slug = ''about'',
     page.content = Some ''About us'', page.meta_title = Some ''About'',
     page.meta_description = Some [], page.meta_keywords = Some [],
     page.is_published = Some 1, page.created_at = 16, page.updated_at = 16\<rparr>"

definition page_draft :: page where
  "page_draft = \<lparr>id' = 2, page.title = ''Offers'', page.slug = ''offers'',
     page.content = Some [], page.meta_title = Some ''Offers'',
     page.meta_description = Some [], page.meta_keywords = Some [],
     page.is_published = Some 0, page.created_at = 17, page.updated_at = 17\<rparr>"

definition post_news :: blog_post where
  "post_news = \<lparr>id' = 1, blog_post.title = ''News'', blog_post.slug = ''news'',
     blog_post.excerpt = Some [], blog_post.content = Some ''Hello'',
     blog_post.featured_image = Some [], blog_post.category = Some ''general'',
     blog_post.tags = Some [], blog_post.status = Some ''published'',
     blog_post.publish_date = Some 18, blog_post.author_id = Some 1,
     blog_post.created_at = 18, blog_post.updated_at = 18\<rparr>"

definition post_draft :: blog_post where
  "post_draft = \<lparr>id' = 2, blog_post.title = ''Plans'', blog_post.slug = ''plans'',
     blog_post.excerpt = Some [], blog_post.content = Some [],
     blog_post.featured_image = Some [], blog_post.category = Some [],
     blog_post.tags = Some [], blog_post.status = Some ''draft'',
     blog_post.publish_date = Some 19, blog_post.author_id = Some 1,
     blog_post.created_at = 19, blog_post.updated_at = 19\<rparr>"

definition setting_title :: setting where
  "setting_title = \<lparr>id' = 1, setting.key = ''site_title'',
     setting.value' = Some ''PowerHouse Gym Chitwan'', setting.type' = Some ''string''\<rparr>"

definition db1 :: db where
  "db1 = db0\<lparr>testimonials := \<lparr>rows = [testimonial_ram, testimonial_pending], seq = 2\<rparr>,
     gallery_albums := \<lparr>rows = [album_events, album_hidden], seq = 2\<rparr>,
     gallery_images := \<lparr>rows = [image_of 1 (Some 1), image_of 2 (Some 2), image_of 3 (Some 2),
                                image_of 4 None], seq = 4\<rparr>,
     trainers := \<lparr>rows = [trainer_off], seq = 1\<rparr>,
     pages := \<lparr>rows = [page_about, page_draft], seq = 2\<rparr>,
     blog_posts := \<lparr>rows = [post_news, post_draft], seq = 2\<rparr>,
     settings := \<lparr>rows = [setting_title], seq = 1\<rparr>\<rparr>"

definition caption_body :: image_body where
  "caption_body = \<lparr>image_body.album_id = Undefined, image_body.file_path = Undefined,
     image_body.thumbnail_path = Undefined, image_body.caption = Val ''Opening day'',
     image_body.sort_order = Undefined\<rparr>"

text \<open>Request bodies that carry the named properties only.\<close>

definition page_fields :: "string field \<Rightarrow> string field \<Rightarrow> page_body" where
  "page_fields t s = \<lparr>page_body.title = t, page_body.slug = s, page_body.content = Undefined,
     page_body.meta_title = Undefined, page_body.meta_description = Undefined,
     page_body.meta_keywords = Undefined, page_body.is_published = Undefined\<rparr>"

definition post_fields :: "string field \<Rightarrow> string field \<Rightarrow> post_body" where
  "post_fields t s = \<lparr>post_body.title = t, post_body.slug = s, post_body.excerpt = Undefined,
     post_body.content = Undefined, post_body.featured_image = Undefined,
     post_body.category = Undefined, post_body.tags = Undefined, post_body.status = Undefined,
     post_body.publish_date = Undefined\<rparr>"

text \<open>
  Stand-ins for \<^verbatim>\<open>JSON.stringify\<close> and \<^verbatim>\<open>JSON.parse\<close> on arrays of strings: the
  elements in double quotes, \<^verbatim>\<open>"\<close> and \<^verbatim>\<open>\\<close> escaped by a backslash, separated by
  commas, in square brackets.
\<close>

fun escape0 :: "char \<Rightarrow> string" where
  "escape0 c = (if c = CHR 0x22 \<or> c = CHR 0x5C then [CHR 0x5C, c] else [c])"

definition quote0 :: "string \<Rightarrow> string" where
  "quote0 s = CHR 0x22 # concat (map escape0 s) @ [CHR 0x22]"

fun join0 :: "string list \<Rightarrow> string" where
  "join0 [] = []"
| "join0 [x] = x"
| "join0 (x # y # ys) = x @ CHR '','' # join0 (y # ys)"

definition stringify0 :: "string list \<Rightarrow> string" where
  "stringify0 xs = CHR ''['' # join0 (map quote0 xs) @ [CHR '']'']"

text \<open>
  The reader's states: before the array, after \<^verbatim>\<open>[\<close>, inside a string, after a
  backslash, after a string, after a comma, after \<^verbatim>\<open>]\<close>.
\<close>

datatype scan_state = Before | Opened | InString | Escaped | AfterString | AfterComma | Closed

fun scan0 :: "scan_state \<Rightarrow> string \<Rightarrow> string list \<Rightarrow> string \<Rightarrow> string list option" where
  "scan0 st cur acc [] = (if st = Closed then Some (rev acc) else None)"
| "scan0 Before cur acc (c # cs) = (if c = CHR ''['' then scan0 Opened cur acc cs else None)"
| "scan0 Opened cur acc (c # cs) =
     (if c = CHR '']'' then scan0 Closed cur acc cs
      else if c = CHR 0x22 then scan0 InString [] acc cs else None)"
| "scan0 InString cur acc (c # cs) =
     (if c = CHR 0x22 then scan0 AfterString [] (rev cur # acc) cs
      else if c = CHR 0x5C then scan0 Escaped cur acc cs
      else scan0 InString (c # cur) acc cs)"
| "scan0 Escaped cur acc (c # cs) = scan0 InString (c # cur) acc cs"
| "scan0 AfterString cur acc (c # cs) =
     (if c = CHR '','' then scan0 AfterComma cur acc cs
      else if c = CHR '']'' then scan0 Closed cur acc cs else None)"
| "scan0 AfterComma cur acc (c # cs) = (if c = CHR 0x22 then scan0 InString [] acc cs else None)"
| "scan0 Closed cur acc (c # cs) = None"

definition parse0 :: "string \<Rightarrow> json option" where
  "parse0 s = map_option JArray (scan0 Before [] [] s)"

text \<open>The scenario's request: \<^verbatim>\<open>{name: "Basic", price: 2000, features: ["Gym Access"]}\<close>.\<close>

definition basic_plan_body :: plan_body where
  "basic_plan_body = \<lparr>plan_body.name = Val ''Basic'', plan_body.price = Val 2000,
     plan_body.billing_period = Undefined, plan_body.description = Undefined,
     plan_body.features = FArray [''Gym Access''], plan_body.is_featured = Undefined,
     plan_body.is_active = Undefined, plan_body.sort_order = Undefined\<rparr>"











text \<open>
  A request whose \<^verbatim>\<open>features\<close> is a text that is not JSON:
  \<^verbatim>\<open>{name: "Trial", price: 500, features: "abc"}\<close>.
\<close>

definition text_plan_body :: plan_body where
  "text_plan_body = \<lparr>plan_body.name = Val ''Trial'', plan_body.price = Val 500,
     plan_body.billing_period = Undefined, plan_body.description = Undefined,
     plan_body.features = FString ''abc'', plan_body.is_featured = Undefined,
     plan_body.is_active = Undefined, plan_body.sort_order = Undefined\<rparr>"

text \<open>
  The store that request leaves, and the store the scenario's request leaves when it
  follows.
\<close>

definition db_trial :: db where
  "db_trial = snd (post_membership stringify0 parse0 verify0 admin_request text_plan_body 19 db1)"

definition db_basic :: db where
  "db_basic = snd (post_membership stringify0 parse0 verify0 admin_request basic_plan_body 20 db_trial)"

text \<open>An uploaded file with its alternative text, and a store that holds it.\<close>

definition media_logo :: media_row where
  "media_logo = \<lparr>id' = 1, media_row.filename = ''1700000000000-123456789.png'',
     media_row.original_name = ''logo.png'',
     media_row.file_path = ''/uploads/images/1700000000000-123456789.webp'',
     media_row.file_type = Some ''image/png'', media_row.file_size = Some 2048,
     media_row.width = Some 64, media_row.height = Some 64,
     media_row.alt_text = Some ''Gym logo'', media_row.created_at = 9\<rparr>"

definition db_media :: db where
  "db_media = db1\<lparr>media := \<lparr>rows = [media_logo], seq = 1\<rparr>\<rparr>"

definition no_media_body :: media_body where
  "no_media_body = \<lparr>media_body.alt_text = Undefined\<rparr>"

section \<open>Login: failures\<close>

lemma login_no_user:
  assumes "e \<noteq> []" "js_truthy p"
    and "find (\<lambda>u. user.email u = toLowerCase e) (rows (users d)) = None"
  shows "login compare sign req \<lparr>login_body.email = Val e, password = Val p\<rparr> now d
           = (Error 401 ''Invalid credentials'', d)"
  using assms by (simp add: login_def)

lemma login_bad_password:
  assumes "e \<noteq> []" "p \<noteq> []"
    and "find (\<lambda>u. user.email u = toLowerCase e) (rows (users d)) = Some u"
    and "\<not> compare p (password_hash u)"
  shows "login compare sign req \<lparr>login_body.email = Val e, password = Val (VString p)\<rparr> now d
           = (Error 401 ''Invalid credentials'', d)"
  using assms by (simp add: login_def)

lemma login_handler_no_user:
  assumes "e \<noteq> []" "js_truthy p"
    and "find (\<lambda>u. user.email u = e) (rows (users d)) = None"
  shows "login_handler compare sign \<lparr>login_body.email = Val e, password = Val p\<rparr> now d
           = (Error 401 ''Invalid credentials'', d)"
  using assms by (simp add: login_handler_def)

lemma login_handler_bad_password:
  assumes "e \<noteq> []" "p \<noteq> []"
    and "find (\<lambda>u. user.email u = e) (rows (users d)) = Some u"
    and "\<not> compare p (password_hash u)"
  shows "login_handler compare sign \<lparr>login_body.email = Val e, password = Val (VString p)\<rparr> now d
           = (Error 401 ''Invalid credentials'', d)"
  using assms by (simp add: login_handler_def)

text \<open>
  A password that is not a string: once the lookup has found the user the comparison
  throws, and the answer is 500.
\<close>

lemma login_password_not_a_string:
  assumes "e \<noteq> []" "js_truthy p" "\<forall>s. p \<noteq> VString s"
    and "find (\<lambda>u. user.email u = toLowerCase e) (rows (users d)) = Some u"
  shows "login compare sign req \<lparr>login_body.email = Val e, password = Val p\<rparr> now d
           = (Error 500 ''Login failed'', d)"
  using assms by (cases p) (simp_all add: login_def)

lemma login_handler_password_not_a_string:
  assumes "e \<noteq> []" "js_truthy p" "\<forall>s. p \<noteq> VString s"
    and "find (\<lambda>u. user.email u = e) (rows (users d)) = Some u"
  shows "login_handler compare sign \<lparr>login_body.email = Val e, password = Val p\<rparr> now d
           = (Error 500 ''Login failed'', d)"
  using assms by (cases p) (simp_all add: login_handler_def)

lemma find_admin_db0:
  "find (\<lambda>u. user.email u = ''admin@powerhousegym.com'') (rows (users db0)) = Some admin_user"
  "find (\<lambda>u. user.email u = ''nobody@example.com'') (rows (users db0)) = None"
  by (simp_all add: db0_def admin_user_def)

lemma toLowerCase_examples:
  "toLowerCase ''admin@powerhousegym.com'' = ''admin@powerhousegym.com''"
  "toLowerCase ''nobody@example.com'' = ''nobody@example.com''"
  by (simp_all add: toLowerCase_def lower_char_def)

text \<open>
  When both passwords are strings, the two failures get the same response: status 401
  with the message \<^verbatim>\<open>Invalid credentials\<close>, from the router's login and from the
  serverless login handler.
\<close>

lemma login_failures_same_for_string_passwords:
  assumes "e1 \<noteq> []" "p1 \<noteq> []" "e2 \<noteq> []" "p2 \<noteq> []"
    and "\<not> compare p2 (password_hash u)"
  shows "(find (\<lambda>r. user.email r = toLowerCase e1) (rows (users d1)) = None \<and>
          find (\<lambda>r. user.email r = toLowerCase e2) (rows (users d2)) = Some u
          \<longrightarrow> fst (login compare sign req1 \<lparr>login_body.email = Val e1, password = Val (VString p1)\<rparr> now1 d1)
                = Error 401 ''Invalid credentials''
            \<and> fst (login compare sign req2 \<lparr>login_body.email = Val e2, password = Val (VString p2)\<rparr> now2 d2)
                = fst (login compare sign req1 \<lparr>login_body.email = Val e1, password = Val (VString p1)\<rparr> now1 d1))
       \<and> (find (\<lambda>r. user.email r = e1) (rows (users d1)) = None \<and>
          find (\<lambda>r. user.email r = e2) (rows (users d2)) = Some u
          \<longrightarrow> fst (login_handler compare sign \<lparr>login_body.email = Val e1, password = Val (VString p1)\<rparr> now1 d1)
                = Error 401 ''Invalid credentials''
            \<and> fst (login_handler compare sign \<lparr>login_body.email = Val e2, password = Val (VString p2)\<rparr> now2 d2)
                = fst (login_handler compare sign \<lparr>login_body.email = Val e1, password = Val (VString p1)\<rparr> now1 d1))"
  using assms
  by (simp add: login_no_user login_bad_password login_handler_no_user login_handler_bad_password)

text \<open>
  C8. The two failures of a login are not always answered alike. Take the body
  \<^verbatim>\<open>{email, password: 12345}\<close>, whose password is a number. With the email of the
  stored user the lookup finds the row, \<^verbatim>\<open>bcrypt.compare\<close> rejects the number (the
  digest comparison fails by throwing) and the handler's \<^verbatim>\<open>catch\<close> answers 500
  \<^verbatim>\<open>Login failed\<close>; with an email that no user has, the handler answers 401
  \<^verbatim>\<open>Invalid credentials\<close> before any comparison. The two responses differ in status
  and in message, in the router's login and in the serverless login handler alike, so
  the response tells whether the email exists. The store is unchanged in all four calls.
\<close>

theorem login_failure_reveals_email:
  "login compare0 sign0 anonymous
      \<lparr>login_body.email = Val ''admin@powerhousegym.com'', password = Val (VNumber 12345)\<rparr> 6 db0
     = (Error 500 ''Login failed'', db0)
   \<and> login compare0 sign0 anonymous
      \<lparr>login_body.email = Val ''nobody@example.com'', password = Val (VNumber 12345)\<rparr> 6 db0
     = (Error 401 ''Invalid credentials'', db0)
   \<and> login_handler compare0 sign0
      \<lparr>login_body.email = Val ''admin@powerhousegym.com'', password = Val (VNumber 12345)\<rparr> 6 db0
     = (Error 500 ''Login failed'', db0)
   \<and> login_handler compare0 sign0
      \<lparr>login_body.email = Val ''nobody@example.com'', password = Val (VNumber 12345)\<rparr> 6 db0
     = (Error 401 ''Invalid credentials'', db0)"
  by (simp add: login_def login_handler_def find_admin_db0 toLowerCase_examples)

lemma login_error_unchanged:
  "login compare sign req b now d = (Error s m, d') \<Longrightarrow> d' = d"
  by (auto simp: login_def Let_def split: field.splits option.splits if_splits js_value.splits)

lemma login_handler_error_unchanged:
  "login_handler compare sign b now d = (Error s m, d') \<Longrightarrow> d' = d"
  by (auto simp: login_handler_def Let_def split: field.splits option.splits if_splits js_value.splits)

text \<open>
  C10. A login that fails leaves the store as it was: when no user has the given email,
  or when the digest comparison fails, the response is an error and the returned store is
  the one the call started from, so \<^verbatim>\<open>last_login\<close> is not stamped and no journal row is
  added; and whenever the response is an error at all (also the 500 of a comparison that
  throws) the store is unchanged. This holds for the router's login and for the
  serverless login handler.
\<close>

theorem login_failure_leaves_store:
  assumes "e \<noteq> []" "p \<noteq> []"
  shows "(find (\<lambda>r. user.email r = toLowerCase e) (rows (users d)) = None
            \<longrightarrow> snd (login compare sign req \<lparr>login_body.email = Val e, password = Val (VString p)\<rparr> now d) = d)
       \<and> (find (\<lambda>r. user.email r = toLowerCase e) (rows (users d)) = Some u
            \<and> \<not> compare p (password_hash u)
            \<longrightarrow> snd (login compare sign req \<lparr>login_body.email = Val e, password = Val (VString p)\<rparr> now d) = d)
       \<and> (find (\<lambda>r. user.email r = e) (rows (users d)) = None
            \<longrightarrow> snd (login_handler compare sign \<lparr>login_body.email = Val e, password = Val (VString p)\<rparr> now d) = d)
       \<and> (find (\<lambda>r. user.email r = e) (rows (users d)) = Some u
            \<and> \<not> compare p (password_hash u)
            \<longrightarrow> snd (login_handler compare sign \<lparr>login_body.email = Val e, password = Val (VString p)\<rparr> now d) = d)
       \<and> (\<forall>b s m. fst (login compare sign req b now d) = Error s m
            \<longrightarrow> snd (login compare sign req b now d) = d)
       \<and> (\<forall>b s m. fst (login_handler compare sign b now d) = Error s m
            \<longrightarrow> snd (login_handler compare sign b now d) = d)"
proof -
  have "snd (login compare sign req b now d) = d"
    if "fst (login compare sign req b now d) = Error s m" for b s m
    using that login_error_unchanged [of compare sign req b now d s m]
    by (cases "login compare sign req b now d") simp
  moreover have "snd (login_handler compare sign b now d) = d"
    if "fst (login_handler compare sign b now d) = Error s m" for b s m
    using that login_handler_error_unchanged [of compare sign b now d s m]
    by (cases "login_handler compare sign b now d") simp
  ultimately show ?thesis
    using assms
    by (simp add: login_no_user login_bad_password login_handler_no_user
        login_handler_bad_password)
qed

theorem login_failure_leaves_store_witness:
  "snd (login compare0 sign0 anonymous
          \<lparr>login_body.email = Val ''admin@powerhousegym.com'', password = Val (VString ''letmein'')\<rparr> 6 db0)
     = db0
   \<and> snd (login compare0 sign0 anonymous
          \<lparr>login_body.email = Val ''nobody@example.com'', password = Val (VString ''letmein'')\<rparr> 6 db0)
     = db0
   \<and> snd (login_handler compare0 sign0
          \<lparr>login_body.email = Val ''admin@powerhousegym.com'', password = Val (VString ''letmein'')\<rparr> 6 db0)
     = db0"
proof -
  have ne: "''admin@powerhousegym.com'' \<noteq> []" "''letmein'' \<noteq> []" "''nobody@example.com'' \<noteq> []"
    by simp_all
  have bad: "\<not> compare0 ''letmein'' (password_hash admin_user)"
    by (simp add: compare0_def admin_user_def)
  show ?thesis
    using ne bad
      login_failure_leaves_store [where e = "''admin@powerhousegym.com''" and p = "''letmein''"
        and d = db0 and compare = compare0 and sign = sign0 and req = anonymous and now = 6
        and u = admin_user]
      login_failure_leaves_store [where e = "''nobody@example.com''" and p = "''letmein''"
        and d = db0 and compare = compare0 and sign = sign0 and req = anonymous and now = 6
        and u = admin_user]
    by (simp add: find_admin_db0 toLowerCase_examples)
qed

section \<open>List and single-item reads\<close>

lemma admin_request_authenticated:
  "authenticateToken verify0 admin_request db1 = Inr admin_user"
  by (simp add: authenticateToken_def bearer_token_def admin_request_def verify0_def db1_def
      db0_def select_by_id_def admin_user_def)

lemma isAdmin_examples: "isAdmin admin_request" "\<not> isAdmin anonymous"
  by (simp_all add: isAdmin_def admin_request_def anonymous_def)

text \<open>
  The list routes of testimonials, trainers, pages and classes branch on the caller:
  without a \<^verbatim>\<open>Bearer\<close> header exactly the rows whose flag is 1, with one every row.
\<close>

lemma get_testimonials_public:
  assumes "\<not> isAdmin req"
  shows "\<exists>ts. get_testimonials req d = Json 200 ts
     \<and> mset ts = mset (filter (\<lambda>r. testimonial.is_approved r = Some 1) (rows (testimonials d)))"
  using assms by (simp add: get_testimonials_def)

lemma get_testimonials_admin:
  assumes "isAdmin req"
  shows "\<exists>ts. get_testimonials req d = Json 200 ts \<and> mset ts = mset (rows (testimonials d))"
  using assms by (simp add: get_testimonials_def)

lemma get_trainers_public:
  assumes "\<not> isAdmin req"
  shows "\<exists>ts. get_trainers req d = Json 200 ts
     \<and> mset ts = mset (filter (\<lambda>r. trainer.is_active r = Some 1) (rows (trainers d)))"
  using assms by (simp add: get_trainers_def)

lemma get_trainers_admin:
  assumes "isAdmin req"
  shows "\<exists>ts. get_trainers req d = Json 200 ts \<and> mset ts = mset (rows (trainers d))"
  using assms by (simp add: get_trainers_def)

lemma get_pages_public:
  assumes "\<not> isAdmin req"
  shows "\<exists>ps. get_pages req d = Json 200 ps
     \<and> mset ps = mset (filter (\<lambda>r. page.is_published r = Some 1) (rows (pages d)))"
  using assms by (simp add: get_pages_def)

lemma get_pages_admin:
  assumes "isAdmin req"
  shows "\<exists>ps. get_pages req d = Json 200 ps \<and> mset ps = mset (rows (pages d))"
  using assms by (simp add: get_pages_def)

lemma get_classes_public:
  assumes "\<not> isAdmin req"
  shows "\<exists>cs. get_classes req d = Json 200 cs
     \<and> mset (map fst cs) = mset (filter (\<lambda>r. class_row.is_active r = Some 1) (rows (classes d)))"
  using assms by (simp add: get_classes_def comp_def del: mset_map)

lemma get_classes_admin:
  assumes "isAdmin req"
  shows "\<exists>cs. get_classes req d = Json 200 cs \<and> mset (map fst cs) = mset (rows (classes d))"
  using assms by (simp add: get_classes_def comp_def del: mset_map)

text \<open>The album list is the same for every caller.\<close>

lemma get_albums_any_caller: "get_albums req d = get_albums req' d"
  by (simp add: get_albums_def)

text \<open>
  C1. An authenticated caller of a list route is to receive every row, whatever its
  flag. The album list does not do so: in the store \<open>db1\<close> the album
  \<open>album_hidden\<close> has \<^verbatim>\<open>is_active = 0\<close>, the caller \<open>admin_request\<close> carries a
  \<^verbatim>\<open>Bearer\<close> token that \<^verbatim>\<open>authenticateToken\<close> accepts, and
  \<^verbatim>\<open>GET /api/gallery/albums\<close> answers with the active album only.
\<close>

theorem get_albums_hides_inactive_from_admin:
  "authenticateToken verify0 admin_request db1 = Inr admin_user
   \<and> isAdmin admin_request
   \<and> album_hidden \<in> set (rows (gallery_albums db1))
   \<and> gallery_album.is_active album_hidden = Some 0
   \<and> get_albums admin_request db1 = Json 200 [(album_events, 1)]"
  by (simp add: admin_request_authenticated isAdmin_examples)
     (simp add: get_albums_def db1_def db0_def album_events_def album_hidden_def image_of_def)

text \<open>
  C2. A single-item read is to hide from a caller without credentials what the list
  hides. The reads by id do not: for such a caller the testimonial list leaves the
  pending testimonial out and the trainer list leaves the inactive trainer out, yet
  \<^verbatim>\<open>GET /api/testimonials/2\<close> and \<^verbatim>\<open>GET /api/trainers/1\<close> answer 200 with those
  rows. The page route does apply the policy: the unpublished page is not found.
\<close>

theorem get_testimonial_serves_unapproved:
  "\<not> isAdmin anonymous
   \<and> testimonial.is_approved testimonial_pending = Some 0
   \<and> get_testimonials anonymous db1 = Json 200 [testimonial_ram]
   \<and> get_testimonial anonymous 2 db1 = Json 200 testimonial_pending
   \<and> trainer.is_active trainer_off = Some 0
   \<and> get_trainers anonymous db1 = Json 200 []
   \<and> get_trainer anonymous 1 db1 = Json 200 trainer_off
   \<and> get_page anonymous ''offers'' db1 = Error 404 ''Page not found''"
  by (simp add: isAdmin_examples)
     (simp add: isAdmin_examples get_testimonials_def get_testimonial_def get_trainers_def
       get_trainer_def get_page_def select_by_id_def db1_def db0_def testimonial_ram_def
       testimonial_pending_def trainer_off_def page_about_def page_draft_def)

section \<open>The journal\<close>

lemma put_image_keeps_journal:
  "activity_logs (snd (put_image verify req i b now d)) = activity_logs d"
  by (simp add: put_image_def with_auth_def Let_def split: sum.splits option.splits prod.splits)

text \<open>
  C6. A successful update is to append one journal row with action \<^verbatim>\<open>update\<close>.
  The update of a gallery image appends none: the authenticated request
  \<^verbatim>\<open>PUT /api/gallery/images/1\<close> with a new caption succeeds and stores the caption,
  and the journal is the one before the call (here empty). Deleting the same image does
  append its row.
\<close>

theorem put_image_writes_no_journal_row:
  "fst (put_image verify0 admin_request 1 caption_body 20 db1)
     = Json 200 (Some ((image_of 1 (Some 1))\<lparr>gallery_image.caption := Some ''Opening day''\<rparr>))
   \<and> activity_logs (snd (put_image verify0 admin_request 1 caption_body 20 db1))
     = activity_logs db1
   \<and> rows (activity_logs db1) = []
   \<and> map (\<lambda>l. (action l, entity_type l, entity_id l))
        (rows (activity_logs (snd (delete_image verify0 admin_request 1 20 db1))))
     = [(''delete'', Some ''gallery_image'', Some 1)]"
  apply (simp add: put_image_keeps_journal)
  apply (simp add: put_image_def delete_image_def with_auth_def admin_request_authenticated)
  apply (simp add: select_by_id_def update_by_id_def delete_by_id_def set_image_def
       caption_body_def logActivity_def insert_row_def next_rowid_def
       db1_def db0_def image_of_def album_events_def album_hidden_def admin_user_def
       empty_table_def)
  done

section \<open>Settings\<close>

lemma api_admin_request: "api_authenticateToken verify0 admin_request = Inr 1"
  by (simp add: api_authenticateToken_def bearer_token_def admin_request_def verify0_def)

text \<open>The router's bulk update is atomic: an error response leaves the store as it was.\<close>

lemma put_settings_atomic:
  "put_settings verify fails req updates now d = (Error s m, d') \<Longrightarrow> d' = d"
  by (auto simp: put_settings_def with_auth_def Let_def
      split: sum.splits option.splits prod.splits settings_body.splits)

text \<open>
  C7. A bulk update of settings is to apply all of its upserts or none. The serverless
  handler does not: with the mapping
  \<^verbatim>\<open>{a: "1", b: "2"}\<close> and a storage engine whose statement for key \<^verbatim>\<open>b\<close> throws,
  the handler answers 500 and key \<^verbatim>\<open>a\<close>, absent before, now reads \<^verbatim>\<open>"1"\<close>: one
  upsert took effect and the other did not. The router's route, on the same input,
  answers 500 and returns the store unchanged.
\<close>

theorem settings_handler_put_keeps_partial_update:
  "fst (settings_handler_put verify0 (\<lambda>k. k = ''b'') admin_request
          [(''a'', VString ''1''), (''b'', VString ''2'')] db1)
     = Error 500 ''Failed to update settings''
   \<and> settings_object (rows (settings db1)) ''a'' = None
   \<and> settings_object (rows (settings (snd (settings_handler_put verify0 (\<lambda>k. k = ''b'')
          admin_request [(''a'', VString ''1''), (''b'', VString ''2'')] db1)))) ''a''
     = Some (Some ''1'')
   \<and> put_settings verify0 (\<lambda>k. k = ''b'') admin_request
          (Object [(''a'', VString ''1''), (''b'', VString ''2'')]) 20 db1
     = (Error 500 ''Failed to update settings'', db1)"
  apply (simp add: settings_handler_put_def put_settings_def with_auth_def api_admin_request
       admin_request_authenticated)
  apply (simp add: replace_setting_def upsert_setting_def insert_row_def next_rowid_def
       settings_object_def db1_def db0_def setting_title_def)
  done

section \<open>Deletes\<close>

lemma select_by_id_id: "select_by_id i t = Some r \<Longrightarrow> id' r = i"
  by (auto simp: select_by_id_def find_Some_iff)

lemma authenticateToken_user:
  "authenticateToken verify req d = Inr u \<Longrightarrow> select_by_id (id' u) (users d) = Some u"
  by (auto simp: authenticateToken_def dest: select_by_id_id
      split: option.splits jwt_result.splits)

lemma logActivity_frame [simp]:
  "users (logActivity uid a et ei dt ipa now d) = users d"
  "pages (logActivity uid a et ei dt ipa now d) = pages d"
  "blog_posts (logActivity uid a et ei dt ipa now d) = blog_posts d"
  "trainers (logActivity uid a et ei dt ipa now d) = trainers d"
  "classes (logActivity uid a et ei dt ipa now d) = classes d"
  "membership_plans (logActivity uid a et ei dt ipa now d) = membership_plans d"
  "membership_inquiries (logActivity uid a et ei dt ipa now d) = membership_inquiries d"
  "testimonials (logActivity uid a et ei dt ipa now d) = testimonials d"
  "gallery_albums (logActivity uid a et ei dt ipa now d) = gallery_albums d"
  "gallery_images (logActivity uid a et ei dt ipa now d) = gallery_images d"
  "media (logActivity uid a et ei dt ipa now d) = media d"
  "settings (logActivity uid a et ei dt ipa now d) = settings d"
  by (simp_all add: logActivity_def)

text \<open>
  A delete route writes its own table and the journal, whatever it answers; when it
  answers 200 its table has lost the rows with the given id and no other.
\<close>

lemma delete_testimonial_local:
  "snd (delete_testimonial verify req i now d)
     = d\<lparr>testimonials := testimonials (snd (delete_testimonial verify req i now d)),
          activity_logs := activity_logs (snd (delete_testimonial verify req i now d))\<rparr>"
  by (simp add: delete_testimonial_def with_auth_def logActivity_def
      split: sum.splits option.splits prod.splits)

lemma delete_testimonial_rows:
  "delete_testimonial verify req i now d = (Json s m, d')
     \<Longrightarrow> rows (testimonials d') = filter (\<lambda>r. id' r \<noteq> i) (rows (testimonials d))"
  by (auto simp: delete_testimonial_def with_auth_def delete_by_id_def
      split: sum.splits option.splits prod.splits if_splits)

lemma delete_trainer_local:
  "snd (delete_trainer verify req i now d)
     = d\<lparr>trainers := trainers (snd (delete_trainer verify req i now d)),
          activity_logs := activity_logs (snd (delete_trainer verify req i now d))\<rparr>"
  by (simp add: delete_trainer_def with_auth_def logActivity_def
      split: sum.splits option.splits prod.splits)

lemma delete_trainer_rows:
  "delete_trainer verify req i now d = (Json s m, d')
     \<Longrightarrow> rows (trainers d') = filter (\<lambda>r. id' r \<noteq> i) (rows (trainers d))"
  by (auto simp: delete_trainer_def with_auth_def delete_by_id_def
      split: sum.splits option.splits prod.splits if_splits)

lemma delete_class_local:
  "snd (delete_class verify req i now d)
     = d\<lparr>classes := classes (snd (delete_class verify req i now d)),
          activity_logs := activity_logs (snd (delete_class verify req i now d))\<rparr>"
  by (simp add: delete_class_def with_auth_def logActivity_def
      split: sum.splits option.splits prod.splits)

lemma delete_class_rows:
  "delete_class verify req i now d = (Json s m, d')
     \<Longrightarrow> rows (classes d') = filter (\<lambda>r. id' r \<noteq> i) (rows (classes d))"
  by (auto simp: delete_class_def with_auth_def delete_by_id_def
      split: sum.splits option.splits prod.splits if_splits)

lemma delete_membership_local:
  "snd (delete_membership verify req i now d)
     = d\<lparr>membership_plans := membership_plans (snd (delete_membership verify req i now d)),
          activity_logs := activity_logs (snd (delete_membership verify req i now d))\<rparr>"
  by (simp add: delete_membership_def with_auth_def logActivity_def
      split: sum.splits option.splits prod.splits)

lemma delete_membership_rows:
  "delete_membership verify req i now d = (Json s m, d')
     \<Longrightarrow> rows (membership_plans d') = filter (\<lambda>r. id' r \<noteq> i) (rows (membership_plans d))"
  by (auto simp: delete_membership_def with_auth_def delete_by_id_def
      split: sum.splits option.splits prod.splits if_splits)

lemma delete_page_local:
  "snd (delete_page verify req i now d)
     = d\<lparr>pages := pages (snd (delete_page verify req i now d)),
          activity_logs := activity_logs (snd (delete_page verify req i now d))\<rparr>"
  by (simp add: delete_page_def with_auth_def logActivity_def
      split: sum.splits option.splits prod.splits)

lemma delete_page_rows:
  "delete_page verify req i now d = (Json s m, d')
     \<Longrightarrow> rows (pages d') = filter (\<lambda>r. id' r \<noteq> i) (rows (pages d))"
  by (auto simp: delete_page_def with_auth_def delete_by_id_def
      split: sum.splits option.splits prod.splits if_splits)

lemma delete_blog_local:
  "snd (delete_blog verify req i now d)
     = d\<lparr>blog_posts := blog_posts (snd (delete_blog verify req i now d)),
          activity_logs := activity_logs (snd (delete_blog verify req i now d))\<rparr>"
  by (simp add: delete_blog_def with_auth_def logActivity_def
      split: sum.splits option.splits prod.splits)

lemma delete_blog_rows:
  "delete_blog verify req i now d = (Json s m, d')
     \<Longrightarrow> rows (blog_posts d') = filter (\<lambda>r. id' r \<noteq> i) (rows (blog_posts d))"
  by (auto simp: delete_blog_def with_auth_def delete_by_id_def
      split: sum.splits option.splits prod.splits if_splits)

lemma delete_image_local:
  "snd (delete_image verify req i now d)
     = d\<lparr>gallery_images := gallery_images (snd (delete_image verify req i now d)),
          activity_logs := activity_logs (snd (delete_image verify req i now d))\<rparr>"
  by (simp add: delete_image_def with_auth_def logActivity_def
      split: sum.splits option.splits prod.splits)

lemma delete_image_rows:
  "delete_image verify req i now d = (Json s m, d')
     \<Longrightarrow> rows (gallery_images d') = filter (\<lambda>r. id' r \<noteq> i) (rows (gallery_images d))"
  by (auto simp: delete_image_def with_auth_def delete_by_id_def
      split: sum.splits option.splits prod.splits if_splits)

lemma delete_album_effect:
  assumes "delete_album verify req i now d = (Json s m, d')"
  shows "rows (gallery_albums d') = filter (\<lambda>a. id' a \<noteq> i) (rows (gallery_albums d))"
    and "rows (gallery_images d')
           = filter (\<lambda>g. gallery_image.album_id g \<noteq> Some i) (rows (gallery_images d))"
    and "d' = d\<lparr>gallery_albums := gallery_albums d', gallery_images := gallery_images d',
                 activity_logs := activity_logs d'\<rparr>"
  using assms
  by (auto simp: delete_album_def with_auth_def delete_album_cascade_def delete_by_id_def
      logActivity_def split: sum.splits option.splits prod.splits if_splits)

text \<open>
  C5. When \<^verbatim>\<open>DELETE /api/gallery/albums/:id\<close> succeeds, the albums table has lost exactly
  the rows with that id, the images table has lost exactly the rows whose
  \<^verbatim>\<open>album_id\<close> is that id (the handler runs the one DELETE statement; the cascade is the
  storage engine's), and every table other than these two and the journal is as before.
  A delete of a testimonial, trainer, class, membership plan, page, blog post or gallery
  image changes no table but its own and the journal, and on success removes from its
  own table exactly the rows with the given id.
\<close>

theorem album_delete_cascades_other_deletes_are_local:
  "(\<forall>s m d'. delete_album verify req i now d = (Json s m, d') \<longrightarrow>
       rows (gallery_albums d') = filter (\<lambda>a. id' a \<noteq> i) (rows (gallery_albums d))
     \<and> rows (gallery_images d')
         = filter (\<lambda>g. gallery_image.album_id g \<noteq> Some i) (rows (gallery_images d))
     \<and> d' = d\<lparr>gallery_albums := gallery_albums d', gallery_images := gallery_images d',
               activity_logs := activity_logs d'\<rparr>)
   \<and> (\<forall>s m d'. delete_testimonial verify req i now d = (Json s m, d') \<longrightarrow>
       rows (testimonials d') = filter (\<lambda>r. id' r \<noteq> i) (rows (testimonials d)))
   \<and> snd (delete_testimonial verify req i now d)
       = d\<lparr>testimonials := testimonials (snd (delete_testimonial verify req i now d)),
            activity_logs := activity_logs (snd (delete_testimonial verify req i now d))\<rparr>
   \<and> (\<forall>s m d'. delete_trainer verify req i now d = (Json s m, d') \<longrightarrow>
       rows (trainers d') = filter (\<lambda>r. id' r \<noteq> i) (rows (trainers d)))
   \<and> snd (delete_trainer verify req i now d)
       = d\<lparr>trainers := trainers (snd (delete_trainer verify req i now d)),
            activity_logs := activity_logs (snd (delete_trainer verify req i now d))\<rparr>
   \<and> (\<forall>s m d'. delete_class verify req i now d = (Json s m, d') \<longrightarrow>
       rows (classes d') = filter (\<lambda>r. id' r \<noteq> i) (rows (classes d)))
   \<and> snd (delete_class verify req i now d)
       = d\<lparr>classes := classes (snd (delete_class verify req i now d)),
            activity_logs := activity_logs (snd (delete_class verify req i now d))\<rparr>
   \<and> (\<forall>s m d'. delete_membership verify req i now d = (Json s m, d') \<longrightarrow>
       rows (membership_plans d') = filter (\<lambda>r. id' r \<noteq> i) (rows (membership_plans d)))
   \<and> snd (delete_membership verify req i now d)
       = d\<lparr>membership_plans := membership_plans (snd (delete_membership verify req i now d)),
            activity_logs := activity_logs (snd (delete_membership verify req i now d))\<rparr>
   \<and> (\<forall>s m d'. delete_page verify req i now d = (Json s m, d') \<longrightarrow>
       rows (pages d') = filter (\<lambda>r. id' r \<noteq> i) (rows (pages d)))
   \<and> snd (delete_page verify req i now d)
       = d\<lparr>pages := pages (snd (delete_page verify req i now d)),
            activity_logs := activity_logs (snd (delete_page verify req i now d))\<rparr>
   \<and> (\<forall>s m d'. delete_blog verify req i now d = (Json s m, d') \<longrightarrow>
       rows (blog_posts d') = filter (\<lambda>r. id' r \<noteq> i) (rows (blog_posts d)))
   \<and> snd (delete_blog verify req i now d)
       = d\<lparr>blog_posts := blog_posts (snd (delete_blog verify req i now d)),
            activity_logs := activity_logs (snd (delete_blog verify req i now d))\<rparr>
   \<and> (\<forall>s m d'. delete_image verify req i now d = (Json s m, d') \<longrightarrow>
       rows (gallery_images d') = filter (\<lambda>r. id' r \<noteq> i) (rows (gallery_images d)))
   \<and> snd (delete_image verify req i now d)
       = d\<lparr>gallery_images := gallery_images (snd (delete_image verify req i now d)),
            activity_logs := activity_logs (snd (delete_image verify req i now d))\<rparr>"
  using delete_album_effect [of verify req i now d]
    delete_testimonial_rows [of verify req i now d] delete_testimonial_local [of verify req i now d]
    delete_trainer_rows [of verify req i now d] delete_trainer_local [of verify req i now d]
    delete_class_rows [of verify req i now d] delete_class_local [of verify req i now d]
    delete_membership_rows [of verify req i now d] delete_membership_local [of verify req i now d]
    delete_page_rows [of verify req i now d] delete_page_local [of verify req i now d]
    delete_blog_rows [of verify req i now d] delete_blog_local [of verify req i now d]
    delete_image_rows [of verify req i now d] delete_image_local [of verify req i now d]
  by blast

theorem album_delete_cascades_witness:
  "fst (delete_album verify0 admin_request 2 20 db1) = Json 200 ''Album deleted successfully''
   \<and> map id' (rows (gallery_albums (snd (delete_album verify0 admin_request 2 20 db1)))) = [1]
   \<and> map id' (rows (gallery_images (snd (delete_album verify0 admin_request 2 20 db1)))) = [1, 4]
   \<and> testimonials (snd (delete_album verify0 admin_request 2 20 db1)) = testimonials db1"
proof -
  have ok: "delete_album verify0 admin_request 2 20 db1
      = (Json 200 ''Album deleted successfully'', snd (delete_album verify0 admin_request 2 20 db1))"
    by (simp add: delete_album_def with_auth_def admin_request_authenticated)
       (simp add: select_by_id_def db1_def db0_def album_events_def album_hidden_def)
  let ?d = "snd (delete_album verify0 admin_request 2 20 db1)"
  have "\<forall>s m d'. delete_album verify0 admin_request 2 20 db1 = (Json s m, d') \<longrightarrow>
       rows (gallery_albums d') = filter (\<lambda>a. id' a \<noteq> 2) (rows (gallery_albums db1))
     \<and> rows (gallery_images d')
         = filter (\<lambda>g. gallery_image.album_id g \<noteq> Some 2) (rows (gallery_images db1))
     \<and> d' = db1\<lparr>gallery_albums := gallery_albums d', gallery_images := gallery_images d',
               activity_logs := activity_logs d'\<rparr>"
    using album_delete_cascades_other_deletes_are_local [of verify0 admin_request 2 20 db1]
    by (rule conjunct1)
  from this [rule_format, OF ok]
  have a: "rows (gallery_albums ?d) = filter (\<lambda>a. id' a \<noteq> 2) (rows (gallery_albums db1))"
    and g: "rows (gallery_images ?d)
         = filter (\<lambda>g. gallery_image.album_id g \<noteq> Some 2) (rows (gallery_images db1))"
    and f: "?d = db1\<lparr>gallery_albums := gallery_albums ?d, gallery_images := gallery_images ?d,
               activity_logs := activity_logs ?d\<rparr>"
    by simp_all
  have t: "testimonials ?d = testimonials db1"
    by (subst f) simp
  have f1: "fst (delete_album verify0 admin_request 2 20 db1) = Json 200 ''Album deleted successfully''"
    by (subst ok) simp
  show ?thesis
    apply (simp only: f1 t a g)
    apply (simp add: db1_def db0_def album_events_def album_hidden_def image_of_def)
    done
qed

section \<open>Slugs\<close>

lemma find_map_same_id:
  assumes "\<And>r. id' (f r) = id' r"
  shows "find (\<lambda>r. id' r = i) (map (\<lambda>r. if id' r = i then f r else r) rs)
           = map_option f (find (\<lambda>r. id' r = i) rs)"
  using assms by (induction rs) auto

lemma select_update_by_id:
  assumes "\<And>r. id' (f r) = id' r"
  shows "select_by_id i (update_by_id i f t) = map_option f (select_by_id i t)"
  using find_map_same_id [OF assms] by (simp add: select_by_id_def update_by_id_def)

lemma find_None_list_ex: "(find P xs = None) = (\<not> list_ex P xs)"
  by (auto simp: find_None_iff list_ex_iff)

lemma unique_slug_no_other:
  assumes "distinct (map sl rs)" and "find (\<lambda>r. id' r = i) rs = Some e"
  shows "\<not> list_ex (\<lambda>r. sl r = sl e \<and> id' r \<noteq> i) rs"
proof
  assume "list_ex (\<lambda>r. sl r = sl e \<and> id' r \<noteq> i) rs"
  then obtain r where r: "r \<in> set rs" "sl r = sl e" "id' r \<noteq> i"
    by (auto simp: list_ex_iff)
  from assms(2) have e: "e \<in> set rs" "id' e = i"
    by (auto simp: find_Some_iff)
  from assms(1) have "inj_on sl (set rs)"
    by (simp add: distinct_map)
  with r(1,2) e(1) have "r = e"
    by (auto dest: inj_onD)
  with r(3) e(2) show False by simp
qed

lemma set_page_id [simp]: "id' (set_page e b now r) = id' r"
  by (simp add: set_page_def)

lemma set_post_id [simp]: "id' (set_post e b now r) = id' r"
  by (simp add: set_post_def)

lemma post_page_conflict:
  assumes "authenticateToken verify req d = Inr u"
    and "page_body.title b = Val t" "t \<noteq> []" "page_body.slug b = Val s" "s \<noteq> []"
    and "list_ex (\<lambda>r. page.slug r = s) (rows (pages d))"
  shows "post_page verify req b now d = (Error 400 ''Slug already exists'', d)"
  using assms by (simp add: post_page_def with_auth_def find_None_list_ex)

lemma put_page_conflict:
  assumes "authenticateToken verify req d = Inr u"
    and "select_by_id i (pages d) = Some existing"
    and "page_body.slug b = Val s" "s \<noteq> []" "s \<noteq> page.slug existing"
    and "list_ex (\<lambda>r. page.slug r = s \<and> id' r \<noteq> i) (rows (pages d))"
  shows "put_page verify req i b now d = (Error 400 ''Slug already exists'', d)"
  using assms by (simp add: put_page_def with_auth_def)

lemma put_page_own_slug:
  assumes "authenticateToken verify req d = Inr u"
    and "select_by_id i (pages d) = Some existing"
    and "page_body.slug b = Val (page.slug existing)"
    and "distinct (map page.slug (rows (pages d)))"
  shows "\<exists>p d'. put_page verify req i b now d = (Json 200 p, d')
           \<and> page.slug p = page.slug existing
           \<and> select_by_id i (pages d') = Some p"
proof -
  from assms(2,4) have no: "\<not> list_ex (\<lambda>r. page.slug r = page.slug existing \<and> id' r \<noteq> i) (rows (pages d))"
    using unique_slug_no_other [of page.slug "rows (pages d)" i existing]
    by (simp add: select_by_id_def)
  show ?thesis
    using assms(1,2,3) no
    by (simp add: put_page_def with_auth_def select_update_by_id Let_def)
       (simp add: set_page_def)
qed

lemma post_blog_conflict:
  assumes "authenticateToken verify req d = Inr u"
    and "post_body.title b = Val t" "t \<noteq> []" "post_body.slug b = Val s" "s \<noteq> []"
    and "list_ex (\<lambda>r. blog_post.slug r = s) (rows (blog_posts d))"
  shows "post_blog verify req b now d = (Error 400 ''Slug already exists'', d)"
  using assms by (simp add: post_blog_def with_auth_def find_None_list_ex)

lemma put_blog_conflict:
  assumes "authenticateToken verify req d = Inr u"
    and "select_by_id i (blog_posts d) = Some existing"
    and "post_body.slug b = Val s" "s \<noteq> []" "s \<noteq> blog_post.slug existing"
    and "list_ex (\<lambda>r. blog_post.slug r = s \<and> id' r \<noteq> i) (rows (blog_posts d))"
  shows "put_blog verify req i b now d = (Error 400 ''Slug already exists'', d)"
  using assms by (simp add: put_blog_def with_auth_def)

lemma put_blog_own_slug:
  assumes "authenticateToken verify req d = Inr u"
    and "select_by_id i (blog_posts d) = Some existing"
    and "post_body.slug b = Val (blog_post.slug existing)"
    and "distinct (map blog_post.slug (rows (blog_posts d)))"
  shows "\<exists>p d'. put_blog verify req i b now d = (Json 200 p, d')
           \<and> blog_post.slug p = blog_post.slug existing
           \<and> select_by_id i (blog_posts d') = Some p"
proof -
  from assms(2,4) have no: "\<not> list_ex (\<lambda>r. blog_post.slug r = blog_post.slug existing \<and> id' r \<noteq> i)
      (rows (blog_posts d))"
    using unique_slug_no_other [of blog_post.slug "rows (blog_posts d)" i existing]
    by (simp add: select_by_id_def)
  show ?thesis
    using assms(1,2,3) no
    by (simp add: put_blog_def with_auth_def select_update_by_id Let_def)
       (simp add: set_post_def)
qed


lemma put_conflict_not_own:
  assumes "distinct (map sl rs)" and "find (\<lambda>r. id' r = i) rs = Some e"
    and "list_ex (\<lambda>r. sl r = s \<and> id' r \<noteq> i) rs"
  shows "s \<noteq> sl e"
  using unique_slug_no_other [OF assms(1,2)] assms(3) by auto

text \<open>
  C4. For pages and for blog posts, with an authenticated caller and a store whose slugs
  are distinct (the column is \<^verbatim>\<open>UNIQUE\<close>): a create with a title and a slug that a row
  already has answers 400 \<^verbatim>\<open>Slug already exists\<close> and returns the store unchanged; an
  update that asks for a slug held by a row with another id answers the same and returns
  the store unchanged; an update that passes the record's own slug succeeds and the
  record keeps its slug.
\<close>

theorem slug_conflicts:
  assumes "authenticateToken verify req d = Inr u"
    and "distinct (map page.slug (rows (pages d)))"
    and "distinct (map blog_post.slug (rows (blog_posts d)))"
  shows
   "(\<forall>b t s. page_body.title b = Val t \<and> t \<noteq> [] \<and> page_body.slug b = Val s \<and> s \<noteq> []
        \<and> list_ex (\<lambda>r. page.slug r = s) (rows (pages d))
      \<longrightarrow> post_page verify req b now d = (Error 400 ''Slug already exists'', d))
    \<and> (\<forall>i b s existing. select_by_id i (pages d) = Some existing
        \<and> page_body.slug b = Val s \<and> s \<noteq> []
        \<and> list_ex (\<lambda>r. page.slug r = s \<and> id' r \<noteq> i) (rows (pages d))
      \<longrightarrow> put_page verify req i b now d = (Error 400 ''Slug already exists'', d))
    \<and> (\<forall>i b existing. select_by_id i (pages d) = Some existing
        \<and> page_body.slug b = Val (page.slug existing)
      \<longrightarrow> (\<exists>p d'. put_page verify req i b now d = (Json 200 p, d')
            \<and> page.slug p = page.slug existing \<and> select_by_id i (pages d') = Some p))
    \<and> (\<forall>b t s. post_body.title b = Val t \<and> t \<noteq> [] \<and> post_body.slug b = Val s \<and> s \<noteq> []
        \<and> list_ex (\<lambda>r. blog_post.slug r = s) (rows (blog_posts d))
      \<longrightarrow> post_blog verify req b now d = (Error 400 ''Slug already exists'', d))
    \<and> (\<forall>i b s existing. select_by_id i (blog_posts d) = Some existing
        \<and> post_body.slug b = Val s \<and> s \<noteq> []
        \<and> list_ex (\<lambda>r. blog_post.slug r = s \<and> id' r \<noteq> i) (rows (blog_posts d))
      \<longrightarrow> put_blog verify req i b now d = (Error 400 ''Slug already exists'', d))
    \<and> (\<forall>i b existing. select_by_id i (blog_posts d) = Some existing
        \<and> post_body.slug b = Val (blog_post.slug existing)
      \<longrightarrow> (\<exists>p d'. put_blog verify req i b now d = (Json 200 p, d')
            \<and> blog_post.slug p = blog_post.slug existing \<and> select_by_id i (blog_posts d') = Some p))"
proof (intro conjI allI impI)
  fix b :: page_body and t s
  assume "page_body.title b = Val t \<and> t \<noteq> [] \<and> page_body.slug b = Val s \<and> s \<noteq> []
        \<and> list_ex (\<lambda>r. page.slug r = s) (rows (pages d))"
  then show "post_page verify req b now d = (Error 400 ''Slug already exists'', d)"
    using post_page_conflict [OF assms(1)] by blast
next
  fix i and b :: page_body and s existing
  assume h: "select_by_id i (pages d) = Some existing
        \<and> page_body.slug b = Val s \<and> s \<noteq> []
        \<and> list_ex (\<lambda>r. page.slug r = s \<and> id' r \<noteq> i) (rows (pages d))"
  then have "s \<noteq> page.slug existing"
    using put_conflict_not_own [of page.slug "rows (pages d)" i existing s] assms(2)
    by (simp add: select_by_id_def)
  with h show "put_page verify req i b now d = (Error 400 ''Slug already exists'', d)"
    using put_page_conflict [OF assms(1)] by blast
next
  fix i and b :: page_body and existing
  assume "select_by_id i (pages d) = Some existing
        \<and> page_body.slug b = Val (page.slug existing)"
  then show "\<exists>p d'. put_page verify req i b now d = (Json 200 p, d')
            \<and> page.slug p = page.slug existing \<and> select_by_id i (pages d') = Some p"
    using put_page_own_slug [OF assms(1) _ _ assms(2)] by blast
next
  fix b :: post_body and t s
  assume "post_body.title b = Val t \<and> t \<noteq> [] \<and> post_body.slug b = Val s \<and> s \<noteq> []
        \<and> list_ex (\<lambda>r. blog_post.slug r = s) (rows (blog_posts d))"
  then show "post_blog verify req b now d = (Error 400 ''Slug already exists'', d)"
    using post_blog_conflict [OF assms(1)] by blast
next
  fix i and b :: post_body and s existing
  assume h: "select_by_id i (blog_posts d) = Some existing
        \<and> post_body.slug b = Val s \<and> s \<noteq> []
        \<and> list_ex (\<lambda>r. blog_post.slug r = s \<and> id' r \<noteq> i) (rows (blog_posts d))"
  then have "s \<noteq> blog_post.slug existing"
    using put_conflict_not_own [of blog_post.slug "rows (blog_posts d)" i existing s] assms(3)
    by (simp add: select_by_id_def)
  with h show "put_blog verify req i b now d = (Error 400 ''Slug already exists'', d)"
    using put_blog_conflict [OF assms(1)] by blast
next
  fix i and b :: post_body and existing
  assume "select_by_id i (blog_posts d) = Some existing
        \<and> post_body.slug b = Val (blog_post.slug existing)"
  then show "\<exists>p d'. put_blog verify req i b now d = (Json 200 p, d')
            \<and> blog_post.slug p = blog_post.slug existing \<and> select_by_id i (blog_posts d') = Some p"
    using put_blog_own_slug [OF assms(1) _ _ assms(3)] by blast
qed

lemma db1_slugs:
  "distinct (map page.slug (rows (pages db1)))"
  "distinct (map blog_post.slug (rows (blog_posts db1)))"
  by (simp_all add: db1_def db0_def page_about_def page_draft_def post_news_def post_draft_def)

lemma db1_select:
  "select_by_id 1 (pages db1) = Some page_about"
  "select_by_id 2 (pages db1) = Some page_draft"
  "select_by_id 1 (blog_posts db1) = Some post_news"
  "select_by_id 2 (blog_posts db1) = Some post_draft"
  by (simp_all add: select_by_id_def db1_def db0_def page_about_def page_draft_def
      post_news_def post_draft_def)

theorem slug_conflicts_witness:
  "post_page verify0 admin_request (page_fields (Val ''Team'') (Val ''about'')) 20 db1
     = (Error 400 ''Slug already exists'', db1)
   \<and> put_page verify0 admin_request 2 (page_fields Undefined (Val ''about'')) 20 db1
     = (Error 400 ''Slug already exists'', db1)
   \<and> (\<exists>p d'. put_page verify0 admin_request 1 (page_fields Undefined (Val ''about'')) 20 db1
         = (Json 200 p, d') \<and> page.slug p = ''about'')
   \<and> post_blog verify0 admin_request (post_fields (Val ''More news'') (Val ''news'')) 20 db1
     = (Error 400 ''Slug already exists'', db1)
   \<and> put_blog verify0 admin_request 2 (post_fields Undefined (Val ''news'')) 20 db1
     = (Error 400 ''Slug already exists'', db1)
   \<and> (\<exists>p d'. put_blog verify0 admin_request 1 (post_fields Undefined (Val ''news'')) 20 db1
         = (Json 200 p, d') \<and> blog_post.slug p = ''news'')"
proof -
  note th = slug_conflicts [OF admin_request_authenticated db1_slugs, of 20]
  have 1: "post_page verify0 admin_request (page_fields (Val ''Team'') (Val ''about'')) 20 db1
     = (Error 400 ''Slug already exists'', db1)"
    by (rule th [THEN conjunct1, rule_format, where t = "''Team''" and s = "''about''"])
       (simp add: page_fields_def db1_def db0_def page_about_def page_draft_def)
  have 2: "put_page verify0 admin_request 2 (page_fields Undefined (Val ''about'')) 20 db1
     = (Error 400 ''Slug already exists'', db1)"
    by (rule th [THEN conjunct2, THEN conjunct1, rule_format, where s = "''about''"
          and existing = page_draft])
       (simp add: db1_select page_fields_def, simp add: db1_def db0_def page_about_def page_draft_def)
  have h3: "select_by_id 1 (pages db1) = Some page_about
      \<and> page_body.slug (page_fields Undefined (Val ''about'')) = Val (page.slug page_about)"
    using db1_select(1) by (simp add: page_fields_def page_about_def)
  from th [THEN conjunct2, THEN conjunct2, THEN conjunct1, rule_format, OF h3]
  have 3: "\<exists>p d'. put_page verify0 admin_request 1 (page_fields Undefined (Val ''about'')) 20 db1
         = (Json 200 p, d') \<and> page.slug p = ''about''"
    by (auto simp: page_about_def)
  have 4: "post_blog verify0 admin_request (post_fields (Val ''More news'') (Val ''news'')) 20 db1
     = (Error 400 ''Slug already exists'', db1)"
    by (rule th [THEN conjunct2, THEN conjunct2, THEN conjunct2, THEN conjunct1, rule_format,
          where t = "''More news''" and s = "''news''"])
       (simp add: post_fields_def db1_def db0_def post_news_def post_draft_def)
  have 5: "put_blog verify0 admin_request 2 (post_fields Undefined (Val ''news'')) 20 db1
     = (Error 400 ''Slug already exists'', db1)"
    by (rule th [THEN conjunct2, THEN conjunct2, THEN conjunct2, THEN conjunct2, THEN conjunct1,
          rule_format, where s = "''news''" and existing = post_draft])
       (simp add: db1_select post_fields_def, simp add: db1_def db0_def post_news_def post_draft_def)
  have h6: "select_by_id 1 (blog_posts db1) = Some post_news
      \<and> post_body.slug (post_fields Undefined (Val ''news'')) = Val (blog_post.slug post_news)"
    using db1_select(3) by (simp add: post_fields_def post_news_def)
  from th [THEN conjunct2, THEN conjunct2, THEN conjunct2, THEN conjunct2, THEN conjunct2,
      rule_format, OF h6]
  have 6: "\<exists>p d'. put_blog verify0 admin_request 1 (post_fields Undefined (Val ''news'')) 20 db1
         = (Json 200 p, d') \<and> blog_post.slug p = ''news''"
    by (auto simp: post_news_def)
  from 1 2 3 4 5 6 show ?thesis by blast
qed

section \<open>Membership plan features\<close>

lemma fold_max_start: "(s::nat) \<le> fold max xs s"
proof (induction xs arbitrary: s)
  case Nil
  show ?case by simp
next
  case (Cons a xs)
  have "s \<le> max a s" by simp
  also have "\<dots> \<le> fold max xs (max a s)" by (rule Cons.IH)
  finally show ?case by simp
qed

lemma fold_max_member: "x \<in> set xs \<Longrightarrow> (x::nat) \<le> fold max xs s"
proof (induction xs arbitrary: s)
  case Nil
  then show ?case by simp
next
  case (Cons a xs)
  show ?case
  proof (cases "x = a")
    case True
    have "a \<le> max a s" by simp
    also have "\<dots> \<le> fold max xs (max a s)" by (rule fold_max_start)
    finally show ?thesis using True by simp
  next
    case False
    with Cons.prems have "x \<in> set xs" by simp
    then show ?thesis using Cons.IH by simp
  qed
qed

lemma find_snoc: "find P (xs @ [y]) = (case find P xs of None \<Rightarrow> (if P y then Some y else None) | Some x \<Rightarrow> Some x)"
  by (induction xs) auto

lemma rowid_fresh: "r \<in> set (rows t) \<Longrightarrow> id' r < next_rowid t"
  using fold_max_member [of "id' r" "map id' (rows t)" "seq t"]
  by (simp add: next_rowid_def less_Suc_eq_le)

lemma select_insert_row:
  assumes "\<And>j. id' (mk j) = j"
  shows "select_by_id (seq (insert_row mk t)) (insert_row mk t) = Some (mk (next_rowid t))"
proof -
  have "find (\<lambda>r. id' r = next_rowid t) (rows t) = None"
    by (fastforce simp: find_None_iff dest: rowid_fresh)
  then show ?thesis
    using assms by (simp add: select_by_id_def insert_row_def find_snoc)
qed

lemma those_map_Some: "those xs = Some ys \<Longrightarrow> xs = map Some ys"
  by (induction xs arbitrary: ys) (auto split: option.splits)

lemma insert_plan_id [simp]: "id' (insert_plan stringify n p b now i) = i"
  by (simp add: insert_plan_def)

lemma post_membership_created:
  assumes "authenticateToken verify req d = Inr u"
    and "plan_body.name b = Val n" "n \<noteq> []" "plan_body.price b = Val p"
    and "plan_body.features b = FArray xs"
    and "parse (stringify xs) = Some (JArray xs)"
  shows "post_membership stringify parse verify req b now d
     = (Json 201 (insert_plan stringify n p b now (next_rowid (membership_plans d)), JArray xs),
        logActivity (id' u) ''create'' (Some ''membership_plan'')
          (Some (next_rowid (membership_plans d))) (Some (''Created plan: '' @ n)) (ip req) now
          (d\<lparr>membership_plans :=
               insert_row (insert_plan stringify n p b now) (membership_plans d)\<rparr>))"
  using assms
  by (simp add: post_membership_def with_auth_def Let_def select_insert_row parse_stored_def)
     (simp add: insert_plan_def)


lemma those_member:
  assumes "those (map g xs) = Some ys" and "x \<in> set xs"
  shows "\<exists>y. g x = Some y \<and> y \<in> set ys"
proof -
  from assms(1) have "map g xs = map Some ys" by (rule those_map_Some)
  moreover from assms(2) have "g x \<in> set (map g xs)" by simp
  ultimately show ?thesis by auto
qed

lemma get_membership_member:
  assumes "get_membership parse req d = Json 200 ps"
    and "pl \<in> set (rows (membership_plans d))"
    and "isAdmin req \<or> membership_plan.is_active pl = Some 1"
  shows "\<exists>f. parse_features parse (membership_plan.features pl) = Some f \<and> (pl, f) \<in> set ps"
proof -
  let ?xs = "sort_key membership_plan.sort_order
               (if isAdmin req then rows (membership_plans d)
                else filter (\<lambda>r. membership_plan.is_active r = Some 1) (rows (membership_plans d)))"
  let ?g = "\<lambda>p. map_option (Pair p) (parse_features parse (membership_plan.features p))"
  from assms(1) have th: "those (map ?g ?xs) = Some ps"
    by (auto simp: get_membership_def split: option.splits if_splits)
  from assms(2,3) have "pl \<in> set ?xs" by auto
  from those_member [OF th this] show ?thesis by auto
qed

lemma those_map_total:
  assumes "\<forall>x\<in>set xs. g x \<noteq> None"
  shows "\<exists>ys. those (map g xs) = Some ys"
  using assms by (induction xs) auto

lemma get_membership_answers:
  assumes "\<forall>q\<in>set (rows (membership_plans d)).
             parse_features parse (membership_plan.features q) \<noteq> None"
  shows "\<exists>ps. get_membership parse req d = Json 200 ps"
proof -
  let ?xs = "sort_key membership_plan.sort_order
               (if isAdmin req then rows (membership_plans d)
                else filter (\<lambda>r. membership_plan.is_active r = Some 1) (rows (membership_plans d)))"
  let ?g = "\<lambda>p. map_option (Pair p) (parse_features parse (membership_plan.features p))"
  have "\<forall>x\<in>set ?xs. ?g x \<noteq> None" using assms by auto
  from those_map_total [OF this] obtain ps where "those (map ?g ?xs) = Some ps" by blast
  then show ?thesis by (simp add: get_membership_def)
qed

text \<open>
  An authenticated create of a membership plan with a name, a price and
  \<^verbatim>\<open>features\<close> given as an array of strings \<open>xs\<close> answers 201 with the plan and
  \<open>xs\<close> as its features; a following get of the plan's id by any caller answers the
  same plan with features \<open>xs\<close>, an array and not the stored text; a following list
  that answers 200 contains the plan with features \<open>xs\<close> when the caller is
  authenticated or the plan is active, which it is unless the request said otherwise; and
  the list does answer 200 when \<^verbatim>\<open>JSON.parse\<close> accepts the \<^verbatim>\<open>features\<close> text of
  every plan stored before. \<^verbatim>\<open>JSON.parse\<close> is taken to invert \<^verbatim>\<open>JSON.stringify\<close>
  on \<open>xs\<close>, whose text is not empty.
\<close>

lemma plan_features_round_trip:
  assumes "authenticateToken verify req d = Inr u"
    and "plan_body.name b = Val n" "n \<noteq> []" "plan_body.price b = Val p"
    and "plan_body.features b = FArray xs"
    and "parse (stringify xs) = Some (JArray xs)" "stringify xs \<noteq> []"
  shows "\<exists>pl d'. post_membership stringify parse verify req b now d = (Json 201 (pl, JArray xs), d')
     \<and> get_membership_plan parse req' (id' pl) d' = Json 200 (pl, JArray xs)
     \<and> (\<forall>ps. get_membership parse req' d' = Json 200 ps
            \<and> (isAdmin req' \<or> membership_plan.is_active pl = Some 1)
          \<longrightarrow> (pl, JArray xs) \<in> set ps)
     \<and> ((\<forall>q\<in>set (rows (membership_plans d)).
            parse_features parse (membership_plan.features q) \<noteq> None)
          \<longrightarrow> (\<exists>ps. get_membership parse req' d' = Json 200 ps))
     \<and> membership_plan.is_active pl = flag_if_defined (plan_body.is_active b) (Some 1)"
proof -
  let ?pl = "insert_plan stringify n p b now (next_rowid (membership_plans d))"
  let ?tbl = "insert_row (insert_plan stringify n p b now) (membership_plans d)"
  let ?d' = "logActivity (id' u) ''create'' (Some ''membership_plan'')
          (Some (next_rowid (membership_plans d))) (Some (''Created plan: '' @ n)) (ip req) now
          (d\<lparr>membership_plans := ?tbl\<rparr>)"
  have created: "post_membership stringify parse verify req b now d = (Json 201 (?pl, JArray xs), ?d')"
    using assms(1-6) by (rule post_membership_created [where stringify = stringify and parse = parse])
  have tbl: "membership_plans ?d' = ?tbl" by simp
  have sel: "select_by_id (id' ?pl) ?tbl = Some ?pl"
    using select_insert_row [of "insert_plan stringify n p b now" "membership_plans d"]
    by (simp add: insert_row_def)
  have feats: "membership_plan.features ?pl = Some (stringify xs)"
    using assms(5) by (simp add: insert_plan_def)
  have pf: "parse_features parse (membership_plan.features ?pl) = Some (JArray xs)"
    using assms(6,7) by (simp add: feats parse_features_def)
  have get: "get_membership_plan parse req' (id' ?pl) ?d' = Json 200 (?pl, JArray xs)"
    by (simp only: get_membership_plan_def tbl sel pf option.case)
  have mem: "?pl \<in> set (rows (membership_plans ?d'))"
    by (simp add: insert_row_def)
  have list: "(?pl, JArray xs) \<in> set ps"
    if "get_membership parse req' ?d' = Json 200 ps
          \<and> (isAdmin req' \<or> membership_plan.is_active ?pl = Some 1)" for ps
    using get_membership_member [of parse req' ?d' ps ?pl] that mem pf by auto
  have answers: "\<exists>ps. get_membership parse req' ?d' = Json 200 ps"
    if st: "\<forall>q\<in>set (rows (membership_plans d)).
            parse_features parse (membership_plan.features q) \<noteq> None"
  proof (rule get_membership_answers)
    have "rows (membership_plans ?d') = rows (membership_plans d) @ [?pl]"
      by (simp add: insert_row_def)
    with st pf show "\<forall>q\<in>set (rows (membership_plans ?d')).
             parse_features parse (membership_plan.features q) \<noteq> None"
      by auto
  qed
  have act: "membership_plan.is_active ?pl = flag_if_defined (plan_body.is_active b) (Some 1)"
    by (simp add: insert_plan_def)
  from created get list answers act show ?thesis by blast
qed

lemma scan0_string_body:
  "scan0 InString cur acc (concat (map escape0 s) @ CHR 0x22 # rest)
     = scan0 AfterString [] ((rev cur @ s) # acc) rest"
proof (induction s arbitrary: cur)
  case Nil
  show ?case by simp
next
  case (Cons c s)
  show ?case
  proof (cases "c = CHR 0x22 \<or> c = CHR 0x5C")
    case True
    then show ?thesis using Cons.IH [of "c # cur"] by auto
  next
    case False
    then show ?thesis using Cons.IH [of "c # cur"] by simp
  qed
qed

lemma scan0_quoted:
  "scan0 Opened cur acc (quote0 s @ rest) = scan0 AfterString [] (s # acc) rest"
  "scan0 AfterComma cur acc (quote0 s @ rest) = scan0 AfterString [] (s # acc) rest"
  using scan0_string_body [of "[]" acc s rest] by (simp_all add: quote0_def)

lemma join0_Cons: "join0 (x # xs) = x @ concat (map (\<lambda>y. CHR '','' # y) xs)"
  by (induction xs arbitrary: x) simp_all

lemma scan0_items:
  "scan0 AfterString cur acc (concat (map (\<lambda>y. CHR '','' # y) (map quote0 ys)) @ [CHR '']''])
     = Some (rev acc @ ys)"
proof (induction ys arbitrary: cur acc)
  case Nil
  show ?case by simp
next
  case (Cons y ys)
  show ?case
    using Cons.IH [of "[]" "y # acc"] by (simp add: scan0_quoted)
qed

text \<open>The stand-ins round-trip on every list of strings.\<close>

lemma codec0_round_trip:
  "parse0 (stringify0 xs) = Some (JArray xs)" "stringify0 xs \<noteq> []"
proof -
  show "parse0 (stringify0 xs) = Some (JArray xs)"
  proof (cases xs)
    case Nil
    then show ?thesis by (simp add: parse0_def stringify0_def)
  next
    case (Cons x xs')
    have "scan0 Before [] [] (stringify0 (x # xs')) = Some (x # xs')"
      using scan0_items [of "[]" "[x]" xs']
      by (simp add: stringify0_def join0_Cons scan0_quoted del: join0.simps)
    with Cons show ?thesis by (simp add: parse0_def)
  qed
  show "stringify0 xs \<noteq> []" by (simp add: stringify0_def)
qed

lemma codec0_gym: "parse0 (stringify0 [''Gym Access'']) = Some (JArray [''Gym Access''])"
  "stringify0 [''Gym Access''] \<noteq> []"
  by (simp_all add: parse0_def stringify0_def quote0_def)

lemma basic_plan_round_trip:
  "(\<exists>pl d'. post_membership stringify0 parse0 verify0 admin_request basic_plan_body 20 db1
        = (Json 201 (pl, JArray [''Gym Access'']), d')
     \<and> membership_plan.name pl = ''Basic'' \<and> membership_plan.price pl = 2000
     \<and> get_membership_plan parse0 anonymous (id' pl) d' = Json 200 (pl, JArray [''Gym Access''])
     \<and> get_membership parse0 anonymous d' = Json 200 [(pl, JArray [''Gym Access''])])
   \<and> (\<forall>xs. \<exists>pl d'.
        post_membership stringify0 parse0 verify0 admin_request
          (basic_plan_body\<lparr>plan_body.features := FArray xs\<rparr>) 20 db1
        = (Json 201 (pl, JArray xs), d')
     \<and> get_membership_plan parse0 anonymous (id' pl) d' = Json 200 (pl, JArray xs))"
proof -
  have b: "plan_body.name basic_plan_body = Val ''Basic''" "''Basic'' \<noteq> []"
    "plan_body.price basic_plan_body = Val 2000"
    "plan_body.features basic_plan_body = FArray [''Gym Access'']"
    by (simp_all add: basic_plan_body_def)
  from plan_features_round_trip [where stringify = stringify0 and parse = parse0
      and xs = "[''Gym Access'']" and now = 20 and req' = anonymous,
      OF admin_request_authenticated b codec0_gym]
  obtain pl d' where r:
    "post_membership stringify0 parse0 verify0 admin_request basic_plan_body 20 db1
        = (Json 201 (pl, JArray [''Gym Access'']), d')"
    "get_membership_plan parse0 anonymous (id' pl) d' = Json 200 (pl, JArray [''Gym Access''])"
    by blast
  have c: "post_membership stringify0 parse0 verify0 admin_request basic_plan_body 20 db1
     = (Json 201 (insert_plan stringify0 ''Basic'' 2000 basic_plan_body 20 (next_rowid (membership_plans db1)),
          JArray [''Gym Access'']),
        logActivity (id' admin_user) ''create'' (Some ''membership_plan'')
          (Some (next_rowid (membership_plans db1))) (Some (''Created plan: '' @ ''Basic''))
          (ip admin_request) 20
          (db1\<lparr>membership_plans :=
               insert_row (insert_plan stringify0 ''Basic'' 2000 basic_plan_body 20) (membership_plans db1)\<rparr>))"
    using admin_request_authenticated b codec0_gym(1)
    by (rule post_membership_created [where stringify = stringify0 and parse = parse0
          and xs = "[''Gym Access'']"])
  from r(1) c have pl: "pl = insert_plan stringify0 ''Basic'' 2000 basic_plan_body 20 (next_rowid (membership_plans db1))"
    and d': "d' = logActivity (id' admin_user) ''create'' (Some ''membership_plan'')
          (Some (next_rowid (membership_plans db1))) (Some (''Created plan: '' @ ''Basic''))
          (ip admin_request) 20
          (db1\<lparr>membership_plans :=
               insert_row (insert_plan stringify0 ''Basic'' 2000 basic_plan_body 20) (membership_plans db1)\<rparr>)"
    by simp_all
  have l: "get_membership parse0 anonymous d' = Json 200 [(pl, JArray [''Gym Access''])]"
    unfolding pl d'
    by (simp add: get_membership_def isAdmin_def anonymous_def insert_row_def db1_def db0_def
        empty_table_def insert_plan_def basic_plan_body_def parse_features_def codec0_gym
        next_rowid_def)
  have np: "membership_plan.name pl = ''Basic'' \<and> membership_plan.price pl = 2000"
    unfolding pl by (simp add: insert_plan_def)
  have g: "\<exists>pl d'.
        post_membership stringify0 parse0 verify0 admin_request
          (basic_plan_body\<lparr>plan_body.features := FArray xs\<rparr>) 20 db1
        = (Json 201 (pl, JArray xs), d')
     \<and> get_membership_plan parse0 anonymous (id' pl) d' = Json 200 (pl, JArray xs)" for xs
  proof -
    have bx: "plan_body.name (basic_plan_body\<lparr>plan_body.features := FArray xs\<rparr>) = Val ''Basic''"
      "''Basic'' \<noteq> []"
      "plan_body.price (basic_plan_body\<lparr>plan_body.features := FArray xs\<rparr>) = Val 2000"
      "plan_body.features (basic_plan_body\<lparr>plan_body.features := FArray xs\<rparr>) = FArray xs"
      by (simp_all add: basic_plan_body_def)
    from plan_features_round_trip [where stringify = stringify0 and parse = parse0
        and xs = xs and now = 20 and req' = anonymous,
        OF admin_request_authenticated bx codec0_round_trip]
    show ?thesis by blast
  qed
  from r l np g show ?thesis by blast
qed

lemma authenticateToken_users:
  "users d = users d' \<Longrightarrow> authenticateToken verify req d = authenticateToken verify req d'"
  by (simp add: authenticateToken_def split: option.splits jwt_result.splits)

lemma authenticated_same_users:
  "users d = users db1 \<Longrightarrow> authenticateToken verify0 admin_request d = Inr admin_user"
  using admin_request_authenticated authenticateToken_users [of d db1 verify0 admin_request] by simp

lemma post_text_plan:
  "post_membership stringify0 parse0 verify0 admin_request text_plan_body 19 db1
     = (Error 500 ''Failed to create plan'',
        db1\<lparr>membership_plans :=
              \<lparr>rows = [insert_plan stringify0 ''Trial'' 500 text_plan_body 19 1], seq = 1\<rparr>\<rparr>)"
  apply (simp add: post_membership_def with_auth_def admin_request_authenticated)
  apply (simp add: text_plan_body_def Let_def select_insert_row)
  apply (simp add: insert_plan_def parse_stored_def parse0_def insert_row_def next_rowid_def
      db1_def db0_def empty_table_def)
  done

lemma db_trial_eq:
  "db_trial = db1\<lparr>membership_plans :=
              \<lparr>rows = [insert_plan stringify0 ''Trial'' 500 text_plan_body 19 1], seq = 1\<rparr>\<rparr>"
  by (simp add: db_trial_def post_text_plan)

lemma db_trial_authenticated:
  "authenticateToken verify0 admin_request db_trial = Inr admin_user"
  by (rule authenticated_same_users) (simp add: db_trial_eq)

lemma post_basic_plan:
  "post_membership stringify0 parse0 verify0 admin_request basic_plan_body 20 db_trial
     = (Json 201 (insert_plan stringify0 ''Basic'' 2000 basic_plan_body 20 2, JArray [''Gym Access'']),
        db_basic)"
proof -
  have b: "plan_body.name basic_plan_body = Val ''Basic''" "''Basic'' \<noteq> []"
    "plan_body.price basic_plan_body = Val 2000"
    "plan_body.features basic_plan_body = FArray [''Gym Access'']"
    by (simp_all add: basic_plan_body_def)
  have n: "next_rowid (membership_plans db_trial) = 2"
    by (simp add: db_trial_eq next_rowid_def insert_plan_def)
  have "fst (post_membership stringify0 parse0 verify0 admin_request basic_plan_body 20 db_trial)
     = Json 201 (insert_plan stringify0 ''Basic'' 2000 basic_plan_body 20 2, JArray [''Gym Access''])"
    using post_membership_created [where stringify = stringify0 and parse = parse0
          and xs = "[''Gym Access'']" and now = 20, OF db_trial_authenticated b codec0_gym(1)]
    by (simp add: n)
  then show ?thesis by (simp add: db_basic_def prod_eq_iff)
qed

lemma db_basic_plans:
  "rows (membership_plans db_basic)
     = [insert_plan stringify0 ''Trial'' 500 text_plan_body 19 1,
        insert_plan stringify0 ''Basic'' 2000 basic_plan_body 20 2]"
proof -
  have b: "plan_body.name basic_plan_body = Val ''Basic''" "''Basic'' \<noteq> []"
    "plan_body.price basic_plan_body = Val 2000"
    "plan_body.features basic_plan_body = FArray [''Gym Access'']"
    by (simp_all add: basic_plan_body_def)
  have n: "next_rowid (membership_plans db_trial) = 2"
    by (simp add: db_trial_eq next_rowid_def insert_plan_def)
  show ?thesis
    unfolding db_basic_def
    using post_membership_created [where stringify = stringify0 and parse = parse0
          and xs = "[''Gym Access'']" and now = 20, OF db_trial_authenticated b codec0_gym(1)]
    by (simp add: n insert_row_def) (simp add: db_trial_eq)
qed

text \<open>
  C9. The features of a plan created from an array do not always come back from the
  list. An authenticated \<^verbatim>\<open>POST /api/membership\<close> with
  \<^verbatim>\<open>{name: "Trial", price: 500, features: "abc"}\<close> answers 500
  \<^verbatim>\<open>Failed to create plan\<close>, and the row it inserted before \<^verbatim>\<open>JSON.parse\<close> threw
  stays in the table. The scenario's create that follows answers 201 with features
  \<^verbatim>\<open>["Gym Access"]\<close>, and the get of the new plan's id answers 200 with the same
  array; but the list answers 500 \<^verbatim>\<open>Failed to fetch plans\<close> to the anonymous and to
  the authenticated caller alike, because it parses the text of every stored plan.
\<close>

theorem plan_list_fails_after_rejected_create:
  "fst (post_membership stringify0 parse0 verify0 admin_request text_plan_body 19 db1)
     = Error 500 ''Failed to create plan''
   \<and> post_membership stringify0 parse0 verify0 admin_request basic_plan_body 20 db_trial
     = (Json 201 (insert_plan stringify0 ''Basic'' 2000 basic_plan_body 20 2, JArray [''Gym Access'']),
        db_basic)
   \<and> get_membership_plan parse0 anonymous 2 db_basic
     = Json 200 (insert_plan stringify0 ''Basic'' 2000 basic_plan_body 20 2, JArray [''Gym Access''])
   \<and> get_membership parse0 anonymous db_basic = Error 500 ''Failed to fetch plans''
   \<and> get_membership parse0 admin_request db_basic = Error 500 ''Failed to fetch plans''
   \<and> map (\<lambda>p. (id' p, membership_plan.name p, membership_plan.features p, membership_plan.is_active p))
        (rows (membership_plans db_basic))
     = [(1, ''Trial'', Some ''abc'', Some 1), (2, ''Basic'', Some (stringify0 [''Gym Access'']), Some 1)]"
  apply (simp only: post_text_plan post_basic_plan fst_conv)
  apply (simp add: get_membership_plan_def get_membership_def select_by_id_def db_basic_plans
      isAdmin_examples)
  apply (simp add: insert_plan_def text_plan_body_def basic_plan_body_def parse_features_def
      parse0_def stringify0_def quote0_def)
  done

section \<open>Partial updates\<close>

lemma filter_update_by_id:
  assumes "\<And>r. id' (f r) = id' r"
  shows "filter (\<lambda>r. id' r \<noteq> i) (rows (update_by_id i f t)) = filter (\<lambda>r. id' r \<noteq> i) (rows t)"
proof -
  have "filter (\<lambda>r. id' r \<noteq> i) (map (\<lambda>r. if id' r = i then f r else r) rs)
          = filter (\<lambda>r. id' r \<noteq> i) rs" for rs
    using assms by (induction rs) auto
  then show ?thesis by (simp add: update_by_id_def)
qed

text \<open>
  What a successful PUT leaves in its table, one lemma for each route: the row with the
  given id is the row the response carries, the other rows are as before, and every
  column of that row is told from the request body and the row found before the UPDATE.
\<close>

lemma set_testimonial_id [simp]: "id' (set_testimonial existing c b r) = id' r"
  by (simp add: set_testimonial_def)



lemma set_trainer_id [simp]: "id' (set_trainer existing b r) = id' r"
  by (simp add: set_trainer_def)



lemma set_class_id [simp]: "id' (set_class existing b r) = id' r"
  by (simp add: set_class_def)



lemma set_plan_id [simp]: "id' (set_plan stringify existing c b r) = id' r"
  by (simp add: set_plan_def)



lemma set_album_id [simp]: "id' (set_album existing b r) = id' r"
  by (simp add: set_album_def)



lemma set_image_id [simp]: "id' (set_image existing b r) = id' r"
  by (simp add: set_image_def)

















text \<open>
  The update of a media file, \<^verbatim>\<open>PUT /api/media/:id\<close>, is not one of the eight routes
  above. Its statement writes \<^verbatim>\<open>alt_text || ''\<close>: the alternative text becomes the
  given text, and the empty text when the body carries none, an empty one or
  \<^verbatim>\<open>null\<close>; the other columns, the other rows and the other tables are as before.
\<close>

lemma put_media_effect:
  assumes "put_media verify req i b d = (Json s t, d')"
    and "select_by_id i (media d) = Some existing"
  shows "t = Some (existing\<lparr>media_row.alt_text := Some (js_or [] (media_body.alt_text b) [])\<rparr>)
     \<and> select_by_id i (media d') = t
     \<and> filter (\<lambda>r. id' r \<noteq> i) (rows (media d')) = filter (\<lambda>r. id' r \<noteq> i) (rows (media d))
     \<and> seq (media d') = seq (media d)
     \<and> d' = d\<lparr>media := media d'\<rparr>"
proof -
  let ?f = "\<lambda>r. r\<lparr>media_row.alt_text := Some (js_or [] (media_body.alt_text b) [])\<rparr>"
  from assms have d': "d' = d\<lparr>media := update_by_id i ?f (media d)\<rparr>"
    and t: "t = select_by_id i (media d')"
    by (auto simp: put_media_def with_auth_def Let_def split: sum.splits prod.splits)
  have sel: "select_by_id i (media d') = Some (?f existing)"
    by (simp add: d' select_update_by_id assms(2))
  have oth: "filter (\<lambda>r. id' r \<noteq> i) (rows (media d')) = filter (\<lambda>r. id' r \<noteq> i) (rows (media d))"
    by (simp add: d' filter_update_by_id)
  show ?thesis
    using t sel oth by (simp add: d' update_by_id_def)
qed

lemma put_media_no_fields:
  "put_media verify0 admin_request 1 no_media_body db_media
     = (Json 200 (Some (media_logo\<lparr>media_row.alt_text := Some []\<rparr>)),
        db_media\<lparr>media := \<lparr>rows = [media_logo\<lparr>media_row.alt_text := Some []\<rparr>], seq = 1\<rparr>\<rparr>)
   \<and> select_by_id 1 (media db_media) = Some media_logo
   \<and> media_row.alt_text media_logo = Some ''Gym logo''"
proof -
  have a: "authenticateToken verify0 admin_request db_media = Inr admin_user"
    by (rule authenticated_same_users) (simp add: db_media_def)
  show ?thesis
    apply (simp add: put_media_def with_auth_def a)
    apply (simp add: select_by_id_def update_by_id_def db_media_def no_media_body_def
        media_logo_def Let_def)
    done
qed

section \<open>The journal: the other routes\<close>

text \<open>
  The create, update and delete routes of the eight content entities other than the
  update of a gallery image: each appends exactly one journal row, with the action and
  the entity type of the route, when it answers 200 or 201. The update of a media file
  appends none.
\<close>

lemma put_media_keeps_journal:
  "activity_logs (snd (put_media verify req i b d)) = activity_logs d"
  by (simp add: put_media_def with_auth_def Let_def split: sum.splits option.splits prod.splits)

lemma authenticated_fk_ok:
  "authenticateToken verify req d = Inr u \<Longrightarrow> fk_ok (Some (id' u)) (users d)"
  by (simp add: authenticateToken_user)

lemma post_testimonial_journal:
  assumes "post_testimonial verify req b now d = (Json s p, d')"
  shows "\<exists>l. rows (activity_logs d') = rows (activity_logs d) @ [l]
     \<and> action l = ''create'' \<and> entity_type l = Some ''testimonial''"
  using assms
  by (auto simp: post_testimonial_def with_auth_def logActivity_def insert_row_def Let_def
      delete_album_cascade_def
      dest!: authenticated_fk_ok
      split: sum.splits option.splits prod.splits if_splits field.splits settings_body.splits)

lemma post_trainer_journal:
  assumes "post_trainer verify req b now d = (Json s p, d')"
  shows "\<exists>l. rows (activity_logs d') = rows (activity_logs d) @ [l]
     \<and> action l = ''create'' \<and> entity_type l = Some ''trainer''"
  using assms
  by (auto simp: post_trainer_def with_auth_def logActivity_def insert_row_def Let_def
      delete_album_cascade_def
      dest!: authenticated_fk_ok
      split: sum.splits option.splits prod.splits if_splits field.splits settings_body.splits)

lemma post_class_journal:
  assumes "post_class verify req b now d = (Json s p, d')"
  shows "\<exists>l. rows (activity_logs d') = rows (activity_logs d) @ [l]
     \<and> action l = ''create'' \<and> entity_type l = Some ''class''"
  using assms
  by (auto simp: post_class_def with_auth_def logActivity_def insert_row_def Let_def
      delete_album_cascade_def
      dest!: authenticated_fk_ok
      split: sum.splits option.splits prod.splits if_splits field.splits settings_body.splits)

lemma post_membership_journal:
  assumes "post_membership stringify parse verify req b now d = (Json s p, d')"
  shows "\<exists>l. rows (activity_logs d') = rows (activity_logs d) @ [l]
     \<and> action l = ''create'' \<and> entity_type l = Some ''membership_plan''"
  using assms
  by (auto simp: post_membership_def with_auth_def logActivity_def insert_row_def Let_def
      delete_album_cascade_def
      dest!: authenticated_fk_ok
      split: sum.splits option.splits prod.splits if_splits field.splits settings_body.splits)

lemma post_album_journal:
  assumes "post_album verify req b now d = (Json s p, d')"
  shows "\<exists>l. rows (activity_logs d') = rows (activity_logs d) @ [l]
     \<and> action l = ''create'' \<and> entity_type l = Some ''gallery_album''"
  using assms
  by (auto simp: post_album_def with_auth_def logActivity_def insert_row_def Let_def
      delete_album_cascade_def
      dest!: authenticated_fk_ok
      split: sum.splits option.splits prod.splits if_splits field.splits settings_body.splits)

lemma post_image_journal:
  assumes "post_image verify req b now d = (Json s p, d')"
  shows "\<exists>l. rows (activity_logs d') = rows (activity_logs d) @ [l]
     \<and> action l = ''create'' \<and> entity_type l = Some ''gallery_image''"
  using assms
  by (auto simp: post_image_def with_auth_def logActivity_def insert_row_def Let_def
      delete_album_cascade_def
      dest!: authenticated_fk_ok
      split: sum.splits option.splits prod.splits if_splits field.splits settings_body.splits)

lemma post_page_journal:
  assumes "post_page verify req b now d = (Json s p, d')"
  shows "\<exists>l. rows (activity_logs d') = rows (activity_logs d) @ [l]
     \<and> action l = ''create'' \<and> entity_type l = Some ''page''"
  using assms
  by (auto simp: post_page_def with_auth_def logActivity_def insert_row_def Let_def
      delete_album_cascade_def
      dest!: authenticated_fk_ok
      split: sum.splits option.splits prod.splits if_splits field.splits settings_body.splits)

lemma post_blog_journal:
  assumes "post_blog verify req b now d = (Json s p, d')"
  shows "\<exists>l. rows (activity_logs d') = rows (activity_logs d) @ [l]
     \<and> action l = ''create'' \<and> entity_type l = Some ''blog_post''"
  using assms
  by (auto simp: post_blog_def with_auth_def logActivity_def insert_row_def Let_def
      delete_album_cascade_def
      dest!: authenticated_fk_ok
      split: sum.splits option.splits prod.splits if_splits field.splits settings_body.splits)

lemma put_testimonial_journal:
  assumes "put_testimonial verify req i b now d = (Json s p, d')"
  shows "\<exists>l. rows (activity_logs d') = rows (activity_logs d) @ [l]
     \<and> action l = ''update'' \<and> entity_type l = Some ''testimonial''"
  using assms
  by (auto simp: put_testimonial_def with_auth_def logActivity_def insert_row_def Let_def
      delete_album_cascade_def
      dest!: authenticated_fk_ok
      split: sum.splits option.splits prod.splits if_splits field.splits settings_body.splits)

lemma put_trainer_journal:
  assumes "put_trainer verify req i b now d = (Json s p, d')"
  shows "\<exists>l. rows (activity_logs d') = rows (activity_logs d) @ [l]
     \<and> action l = ''update'' \<and> entity_type l = Some ''trainer''"
  using assms
  by (auto simp: put_trainer_def with_auth_def logActivity_def insert_row_def Let_def
      delete_album_cascade_def
      dest!: authenticated_fk_ok
      split: sum.splits option.splits prod.splits if_splits field.splits settings_body.splits)

lemma put_class_journal:
  assumes "put_class verify req i b now d = (Json s p, d')"
  shows "\<exists>l. rows (activity_logs d') = rows (activity_logs d) @ [l]
     \<and> action l = ''update'' \<and> entity_type l = Some ''class''"
  using assms
  by (auto simp: put_class_def with_auth_def logActivity_def insert_row_def Let_def
      delete_album_cascade_def
      dest!: authenticated_fk_ok
      split: sum.splits option.splits prod.splits if_splits field.splits settings_body.splits)

lemma put_membership_journal:
  assumes "put_membership stringify parse verify req i b now d = (Json s p, d')"
  shows "\<exists>l. rows (activity_logs d') = rows (activity_logs d) @ [l]
     \<and> action l = ''update'' \<and> entity_type l = Some ''membership_plan''"
  using assms
  by (auto simp: put_membership_def with_auth_def logActivity_def insert_row_def Let_def
      delete_album_cascade_def
      dest!: authenticated_fk_ok
      split: sum.splits option.splits prod.splits if_splits field.splits settings_body.splits)

lemma put_album_journal:
  assumes "put_album verify req i b now d = (Json s p, d')"
  shows "\<exists>l. rows (activity_logs d') = rows (activity_logs d) @ [l]
     \<and> action l = ''update'' \<and> entity_type l = Some ''gallery_album''"
  using assms
  by (auto simp: put_album_def with_auth_def logActivity_def insert_row_def Let_def
      delete_album_cascade_def
      dest!: authenticated_fk_ok
      split: sum.splits option.splits prod.splits if_splits field.splits settings_body.splits)

lemma put_page_journal:
  assumes "put_page verify req i b now d = (Json s p, d')"
  shows "\<exists>l. rows (activity_logs d') = rows (activity_logs d) @ [l]
     \<and> action l = ''update'' \<and> entity_type l = Some ''page''"
  using assms
  by (auto simp: put_page_def with_auth_def logActivity_def insert_row_def Let_def
      delete_album_cascade_def
      dest!: authenticated_fk_ok
      split: sum.splits option.splits prod.splits if_splits field.splits settings_body.splits)

lemma put_blog_journal:
  assumes "put_blog verify req i b now d = (Json s p, d')"
  shows "\<exists>l. rows (activity_logs d') = rows (activity_logs d) @ [l]
     \<and> action l = ''update'' \<and> entity_type l = Some ''blog_post''"
  using assms
  by (auto simp: put_blog_def with_auth_def logActivity_def insert_row_def Let_def
      delete_album_cascade_def
      dest!: authenticated_fk_ok
      split: sum.splits option.splits prod.splits if_splits field.splits settings_body.splits)

lemma put_settings_journal:
  assumes "put_settings verify fails req updates now d = (Json s p, d')"
  shows "\<exists>l. rows (activity_logs d') = rows (activity_logs d) @ [l]
     \<and> action l = ''update'' \<and> entity_type l = Some ''settings''"
  using assms
  by (auto simp: put_settings_def with_auth_def logActivity_def insert_row_def Let_def
      delete_album_cascade_def
      dest!: authenticated_fk_ok
      split: sum.splits option.splits prod.splits if_splits field.splits settings_body.splits)

lemma delete_testimonial_journal:
  assumes "delete_testimonial verify req i now d = (Json s p, d')"
  shows "\<exists>l. rows (activity_logs d') = rows (activity_logs d) @ [l]
     \<and> action l = ''delete'' \<and> entity_type l = Some ''testimonial''"
  using assms
  by (auto simp: delete_testimonial_def with_auth_def logActivity_def insert_row_def Let_def
      delete_album_cascade_def
      dest!: authenticated_fk_ok
      split: sum.splits option.splits prod.splits if_splits field.splits settings_body.splits)

lemma delete_trainer_journal:
  assumes "delete_trainer verify req i now d = (Json s p, d')"
  shows "\<exists>l. rows (activity_logs d') = rows (activity_logs d) @ [l]
     \<and> action l = ''delete'' \<and> entity_type l = Some ''trainer''"
  using assms
  by (auto simp: delete_trainer_def with_auth_def logActivity_def insert_row_def Let_def
      delete_album_cascade_def
      dest!: authenticated_fk_ok
      split: sum.splits option.splits prod.splits if_splits field.splits settings_body.splits)

lemma delete_class_journal:
  assumes "delete_class verify req i now d = (Json s p, d')"
  shows "\<exists>l. rows (activity_logs d') = rows (activity_logs d) @ [l]
     \<and> action l = ''delete'' \<and> entity_type l = Some ''class''"
  using assms
  by (auto simp: delete_class_def with_auth_def logActivity_def insert_row_def Let_def
      delete_album_cascade_def
      dest!: authenticated_fk_ok
      split: sum.splits option.splits prod.splits if_splits field.splits settings_body.splits)

lemma delete_membership_journal:
  assumes "delete_membership verify req i now d = (Json s p, d')"
  shows "\<exists>l. rows (activity_logs d') = rows (activity_logs d) @ [l]
     \<and> action l = ''delete'' \<and> entity_type l = Some ''membership_plan''"
  using assms
  by (auto simp: delete_membership_def with_auth_def logActivity_def insert_row_def Let_def
      delete_album_cascade_def
      dest!: authenticated_fk_ok
      split: sum.splits option.splits prod.splits if_splits field.splits settings_body.splits)

lemma delete_album_journal:
  assumes "delete_album verify req i now d = (Json s p, d')"
  shows "\<exists>l. rows (activity_logs d') = rows (activity_logs d) @ [l]
     \<and> action l = ''delete'' \<and> entity_type l = Some ''gallery_album''"
  using assms
  by (auto simp: delete_album_def with_auth_def logActivity_def insert_row_def Let_def
      delete_album_cascade_def
      dest!: authenticated_fk_ok
      split: sum.splits option.splits prod.splits if_splits field.splits settings_body.splits)

lemma delete_image_journal:
  assumes "delete_image verify req i now d = (Json s p, d')"
  shows "\<exists>l. rows (activity_logs d') = rows (activity_logs d) @ [l]
     \<and> action l = ''delete'' \<and> entity_type l = Some ''gallery_image''"
  using assms
  by (auto simp: delete_image_def with_auth_def logActivity_def insert_row_def Let_def
      delete_album_cascade_def
      dest!: authenticated_fk_ok
      split: sum.splits option.splits prod.splits if_splits field.splits settings_body.splits)

lemma delete_page_journal:
  assumes "delete_page verify req i now d = (Json s p, d')"
  shows "\<exists>l. rows (activity_logs d') = rows (activity_logs d) @ [l]
     \<and> action l = ''delete'' \<and> entity_type l = Some ''page''"
  using assms
  by (auto simp: delete_page_def with_auth_def logActivity_def insert_row_def Let_def
      delete_album_cascade_def
      dest!: authenticated_fk_ok
      split: sum.splits option.splits prod.splits if_splits field.splits settings_body.splits)

lemma delete_blog_journal:
  assumes "delete_blog verify req i now d = (Json s p, d')"
  shows "\<exists>l. rows (activity_logs d') = rows (activity_logs d) @ [l]
     \<and> action l = ''delete'' \<and> entity_type l = Some ''blog_post''"
  using assms
  by (auto simp: delete_blog_def with_auth_def logActivity_def insert_row_def Let_def
      delete_album_cascade_def
      dest!: authenticated_fk_ok
      split: sum.splits option.splits prod.splits if_splits field.splits settings_body.splits)

section \<open>Settings: reading back\<close>

lemma settings_object_snoc:
  "settings_object (rs @ [r]) = (settings_object rs)(setting.key r \<mapsto> setting.value' r)"
  by (simp add: settings_object_def)

lemma settings_object_Nil: "settings_object [] = Map.empty"
  by (simp add: settings_object_def)

lemma settings_object_set_value:
  "(settings_object (map (\<lambda>r. if setting.key r = k then r\<lparr>setting.value' := Some v\<rparr> else r) rs))
     = (if list_ex (\<lambda>r. setting.key r = k) rs then (settings_object rs)(k \<mapsto> Some v)
        else settings_object rs)"
proof (induction rs rule: rev_induct)
  case Nil
  show ?case by simp
next
  case (snoc r rs)
  show ?case
  proof (cases "setting.key r = k")
    case True
    with snoc show ?thesis by (auto simp: settings_object_snoc fun_eq_iff)
  next
    case False
    with snoc show ?thesis by (auto simp: settings_object_snoc fun_eq_iff)
  qed
qed

lemma settings_object_upsert:
  "settings_object (rows (upsert_setting k v t)) = (settings_object (rows t))(k \<mapsto> Some v)"
  by (simp add: upsert_setting_def settings_object_set_value insert_row_def settings_object_snoc)

lemma updateMany_object:
  "updateMany fails es t = Some t'
     \<Longrightarrow> settings_object (rows t')
          = fold (\<lambda>(k, v) m. m(k \<mapsto> Some (js_String v))) es (settings_object (rows t))"
proof (induction es arbitrary: t)
  case Nil
  then show ?case by simp
next
  case (Cons e es)
  obtain k v where e: "e = (k, v)" by (cases e)
  from Cons.prems e have "\<not> fails k"
    and "updateMany fails es (upsert_setting k (js_String v) t) = Some t'"
    by (auto split: if_splits)
  from Cons.IH [OF this(2)] show ?case
    by (simp add: e settings_object_upsert)
qed

text \<open>
  When the router's bulk update succeeds, the object it sends, which is also what a
  following read of all settings sends, is the old object overwritten entry by entry.
\<close>

lemma put_settings_read_back:
  assumes "put_settings verify fails req (Object es) now d = (Json s m, d')"
  shows "m = fold (\<lambda>(k, v) m. m(k \<mapsto> Some (js_String v))) es (settings_object (rows (settings d)))"
    and "get_settings d' = Json 200 m"
  using assms
  by (auto simp: put_settings_def with_auth_def Let_def get_settings_def
      dest: updateMany_object split: sum.splits option.splits prod.splits)

lemma put_settings_a_b:
  assumes "put_settings verify fails req (Object [(''a'', VString ''1''), (''b'', VString ''2'')]) now d
             = (Json s m, d')"
  shows "m ''a'' = Some (Some ''1'')" and "m ''b'' = Some (Some ''2'')"
    and "k \<noteq> ''a'' \<Longrightarrow> k \<noteq> ''b'' \<Longrightarrow> m k = settings_object (rows (settings d)) k"
  using put_settings_read_back(1) [OF assms] by simp_all

lemma settings_object_without_key:
  "a \<noteq> k \<Longrightarrow> settings_object (filter (\<lambda>r. setting.key r \<noteq> k) rs) a = settings_object rs a"
  by (induction rs rule: rev_induct) (auto simp: settings_object_snoc settings_object_Nil)

lemma settings_object_replace:
  "settings_object (rows (replace_setting k v t)) = (settings_object (rows t))(k \<mapsto> v)"
  by (auto simp: fun_eq_iff replace_setting_def insert_row_def settings_object_snoc
      settings_object_without_key)

text \<open>The serverless handler reads back the same way when no statement throws.\<close>

lemma execute_each_object:
  "execute_each fails es t = (True, t')
     \<Longrightarrow> settings_object (rows t')
          = fold (\<lambda>(k, v) m. m(k \<mapsto> bind_value v)) es (settings_object (rows t))"
proof (induction es arbitrary: t)
  case Nil
  then show ?case by simp
next
  case (Cons e es)
  obtain k v where e: "e = (k, v)" by (cases e)
  from Cons.prems e have "execute_each fails es (replace_setting k (bind_value v) t) = (True, t')"
    by (auto split: if_splits)
  from Cons.IH [OF this] show ?case
    by (simp add: e settings_object_replace)
qed

section \<open>Reads: the remaining routes\<close>

text \<open>
  The reads by id of testimonials, trainers, classes, plans and albums answer every
  caller alike; the reads by slug of pages and blog posts apply the policy of their
  lists.
\<close>

lemma get_by_id_any_caller:
  "get_testimonial req i d = get_testimonial req' i d"
  "get_trainer req i d = get_trainer req' i d"
  "get_class req i d = get_class req' i d"
  "get_membership_plan parse req i d = get_membership_plan parse req' i d"
  "get_album req i d = get_album req' i d"
  by (simp_all add: get_testimonial_def get_trainer_def get_class_def get_membership_plan_def
      get_album_def)

lemma get_page_policy:
  assumes "find (\<lambda>r. page.slug r = s) (rows (pages d)) = Some p"
  shows "get_page req s d
     = (if column_truthy (page.is_published p) \<or> isAdmin req then Json 200 p
        else Error 404 ''Page not found'')"
  using assms by (simp add: get_page_def)

lemma get_post_policy:
  assumes "find (\<lambda>r. blog_post.slug r = s) (rows (blog_posts d)) = Some p"
  shows "get_post verify req s now d
     = (if optionalAuth verify req d \<noteq> None
           \<or> (blog_post.status p = Some ''published'' \<and> \<not> date_after (blog_post.publish_date p) now)
        then Json 200 p else Error 404 ''Post not found'')"
  using assms by (auto simp: get_post_def)

lemma those_pairs_fst:
  "those (map (\<lambda>p. map_option (Pair p) (g p)) xs) = Some ps \<Longrightarrow> map fst ps = xs"
  by (induction xs arbitrary: ps) (auto split: option.splits)

lemma get_membership_rows:
  assumes "get_membership parse req d = Json 200 ps"
  shows "mset (map fst ps)
     = mset (if isAdmin req then rows (membership_plans d)
             else filter (\<lambda>r. membership_plan.is_active r = Some 1) (rows (membership_plans d)))"
proof -
  let ?xs = "sort_key membership_plan.sort_order
               (if isAdmin req then rows (membership_plans d)
                else filter (\<lambda>r. membership_plan.is_active r = Some 1) (rows (membership_plans d)))"
  from assms have "those (map (\<lambda>p. map_option (Pair p)
      (parse_features parse (membership_plan.features p))) ?xs) = Some ps"
    by (auto simp: get_membership_def split: option.splits if_splits)
  then have "map fst ps = ?xs" by (rule those_pairs_fst)
  then show ?thesis by (simp del: mset_map)
qed

end
